theory Spec2Isabelle
  imports Complex_Main "HOL-Library.AList"
begin

section \<open>Python values, errors and effects\<close>

text \<open>
  The repository is glue code around an external deep-learning framework. The embedding
  keeps every statement of the glue and takes each call that leaves the repository's
  sources (framework constructors, training loops, JSON decoding, scoring) from an
  environment record: the call is logged as an \<open>event\<close> and its result, a value or a
  raised error, is whatever the environment says.
\<close>

text \<open>
  A message built by \<open>str.format\<close> or \<open>%\<close> is kept as its template and the
  arguments formatted into it.
\<close>

datatype format_arg = IntArg int | StrArg string

datatype error =
    ValueError string "format_arg list"
  | AssertionError
  | TypeError
  | AttributeError
  | KeyError string
  | ZeroDivisionError
  | OverflowError
  | NotFoundError string
  | FileExistsError
  | SkipTest string "format_arg list"
  | FrameworkError string

text \<open>
  Decoded JSON, which is also what the benchmark's dictionaries hold. A Python float or
  int is a rational here; a dictionary is an association list read with \<open>map_of\<close>.
\<close>

datatype json =
    JNull
  | JBool bool
  | JNum rat
  | JStr string
  | JList "json list"
  | JDict "(string \<times> json) list"

text \<open>\<open>d[k]\<close> and \<open>d[k] = v\<close> of Python, on a decoded JSON value.\<close>

definition getitem :: "json \<Rightarrow> string \<Rightarrow> error + json" where
  "getitem d k =
     (case d of
        JDict kvs \<Rightarrow> (case map_of kvs k of None \<Rightarrow> Inl (KeyError k) | Some v \<Rightarrow> Inr v)
      | _ \<Rightarrow> Inl TypeError)"

definition setitem :: "json \<Rightarrow> string \<Rightarrow> json \<Rightarrow> error + json" where
  "setitem d k v =
     (case d of
        JDict kvs \<Rightarrow> Inr (JDict (AList.update k v kvs))
      | _ \<Rightarrow> Inl TypeError)"

text \<open>\<open>os.path.join\<close> of two components (posixpath).\<close>

definition os_path_join :: "string \<Rightarrow> string \<Rightarrow> string" where
  "os_path_join a b =
     (if b \<noteq> [] \<and> hd b = CHR ''/'' then b
      else if a = [] \<or> last a = CHR ''/'' then a @ b
      else a @ ''/'' @ b)"

text \<open>\<open>s.startswith(p)\<close> and \<open>s.split(c)\<close> of Python strings.\<close>

definition startswith :: "string \<Rightarrow> string \<Rightarrow> bool" where
  "startswith s p = (take (length p) s = p)"

fun split_on :: "char \<Rightarrow> string \<Rightarrow> string list" where
  "split_on c [] = [[]]"
| "split_on c (x # xs) =
     (if x = c then [] # split_on c xs
      else (case split_on c xs of [] \<Rightarrow> [[x]] | w # ws \<Rightarrow> (x # w) # ws))"

text \<open>
  A computation over a state \<open>'s\<close> that returns a value or raises. The state survives a
  raise, as the mutations of a Python object do.
\<close>

type_synonym ('s, 'a) action = "'s \<Rightarrow> (error + 'a) \<times> 's"

definition and_then :: "('s, 'a) action \<Rightarrow> ('a \<Rightarrow> ('s, 'b) action) \<Rightarrow> ('s, 'b) action" where
  "and_then m f s = (case m s of (Inl e, s') \<Rightarrow> (Inl e, s') | (Inr x, s') \<Rightarrow> f x s')"

definition returns :: "'a \<Rightarrow> ('s, 'a) action" where
  "returns x s = (Inr x, s)"

definition raise :: "error \<Rightarrow> ('s, 'a) action" where
  "raise e s = (Inl e, s)"

text \<open>The distribution strategy objects of the framework, as far as the code looks at them.\<close>

datatype strategy_class = MirroredStrategy | TPUStrategy | OtherStrategy

record strategy =
  strategy_class :: strategy_class
  num_replicas_in_sync :: int

text \<open>
  \<open>flags.FLAGS\<close>: the flags the three modules read or set. A string flag may be
  \<open>None\<close>.
\<close>

record flags =
  input_files :: "string option"
  bert_config_file :: "string option"
  model_dir :: "string option"
  tpu :: string
  strategy_type :: string
  max_seq_length :: int
  max_predictions_per_seq :: int
  train_batch_size :: int
  num_train_epochs :: int
  num_steps_per_epoch :: int
  learning_rate :: rat
  warmup_steps :: rat
  train_data_path :: "string option"
  predict_file :: "string option"
  vocab_file :: "string option"
  input_meta_data_path :: "string option"
  init_checkpoint :: "string option"

text \<open>
  A running script or test: the flags and the calls made so far into code outside the
  sources, oldest first.
\<close>

record 'e process =
  FLAGS :: flags
  trace :: "'e list"

definition log_event :: "'e \<Rightarrow> (('e, 'z) process_scheme, unit) action" where
  "log_event e s = (Inr (), s\<lparr>trace := trace s @ [e]\<rparr>)"

text \<open>An external call: it is logged, then it returns or raises what the environment says.\<close>

definition call :: "'e \<Rightarrow> error + 'a \<Rightarrow> (('e, 'z) process_scheme, 'a) action" where
  "call e result =
     and_then (log_event e)
       (\<lambda>_. case result of Inl err \<Rightarrow> raise err | Inr v \<Rightarrow> returns v)"

text \<open>The events a computation adds to the trace of the state it starts from.\<close>

definition new_events ::
  "(('e, 'z) process_scheme, 'a) action \<Rightarrow> ('e, 'z) process_scheme \<Rightarrow> 'e list" where
  "new_events m s = drop (length (trace s)) (trace (snd (m s)))"

section \<open>official/bert/run_pretraining.py\<close>

subsection \<open>get_pretrain_input_data\<close>

text \<open>
  \<open>tf.io.gfile.glob\<close> and \<open>input_pipeline.create_pretrain_dataset\<close> are external; the
  dataset type \<open>'ds\<close> is theirs.
\<close>

record 'ds input_env =
  glob :: "string \<Rightarrow> error + string list"
  create_pretrain_dataset :: "string list \<Rightarrow> int \<Rightarrow> int \<Rightarrow> int \<Rightarrow> error + 'ds"

text \<open>
  The value returned: the closure \<open>_dataset_fn\<close> itself, given by the variables it
  captured (file pattern, sequence length, predictions per sequence, batch size), or the
  dataset it built.
\<close>

datatype 'ds input_data =
    DatasetFn "string option" int int int
  | Dataset 'ds

text \<open>The loop \<open>for input_pattern in ...: input_files.extend(glob(input_pattern))\<close>.\<close>

fun glob_all :: "'ds input_env \<Rightarrow> string list \<Rightarrow> string list \<Rightarrow> error + string list" where
  "glob_all env [] files = Inr files"
| "glob_all env (input_pattern # rest) files =
     (case glob env input_pattern of
        Inl e \<Rightarrow> Inl e
      | Inr found \<Rightarrow> glob_all env rest (files @ found))"

definition dataset_fn ::
  "'ds input_env \<Rightarrow> string option \<Rightarrow> int \<Rightarrow> int \<Rightarrow> int \<Rightarrow> error + 'ds" where
  "dataset_fn env input_file_pattern seq_length max_predictions batch_size =
     (case input_file_pattern of
        None \<Rightarrow> Inl AttributeError
      | Some pattern \<Rightarrow>
          (case glob_all env (split_on CHR '','' pattern) [] of
             Inl e \<Rightarrow> Inl e
           | Inr files \<Rightarrow>
               create_pretrain_dataset env files seq_length max_predictions batch_size))"

text \<open>
  \<open>int(batch_size / strategy.num_replicas_in_sync)\<close>. The module imports \<open>division\<close>
  from \<open>__future__\<close>, so \<open>/\<close> is true division: of two integers it gives the double
  nearest to their exact quotient (53 significant bits, ties to the even significand), a
  \<open>ZeroDivisionError\<close> for a zero divisor and an \<open>OverflowError\<close> when that double would
  be \<open>2 ^ 1024\<close> or more; \<open>int\<close> then drops the fractional part. \<open>bit_length\<close> is the
  number of binary digits of a positive integer, \<open>round_half_even\<close> the nearest integer
  with ties to even, and \<open>scale2 x e\<close> is \<open>x\<close> times \<open>2\<close> to the \<open>e\<close>. A quotient
  below one half has a nearest double below one, whose integer part is zero.
\<close>

function bit_length :: "int \<Rightarrow> nat" where
  "bit_length n = (if n \<le> 0 then 0 else Suc (bit_length (n div 2)))"
  by pat_completeness auto

termination
  by (relation "measure nat") auto

declare bit_length.simps [simp del]

definition round_half_even :: "rat \<Rightarrow> int" where
  "round_half_even x =
     (let f = \<lfloor>x\<rfloor>; r = x - of_int f in
      if r < 1 / 2 then f else if 1 / 2 < r then f + 1 else if even f then f else f + 1)"

definition scale2 :: "rat \<Rightarrow> int \<Rightarrow> rat" where
  "scale2 x e = (if 0 \<le> e then x * 2 ^ nat e else x / 2 ^ nat (- e))"

definition per_replica_batch_size :: "int \<Rightarrow> int \<Rightarrow> error + int" where
  "per_replica_batch_size batch_size replicas =
     (if replicas = 0 then Inl ZeroDivisionError
      else
        let q = \<bar>of_int batch_size / of_int replicas\<bar> :: rat in
        if q < 1 / 2 then Inr 0
        else
          let e = (if q < 1 then - 1 else int (bit_length \<lfloor>q\<rfloor>) - 1) - 52;
              v = scale2 (of_int (round_half_even (scale2 q (- e)))) e
          in if 2 ^ 1024 \<le> v then Inl OverflowError
             else Inr (sgn batch_size * sgn replicas * \<lfloor>v\<rfloor>))"

definition get_pretrain_input_data ::
  "'ds input_env \<Rightarrow> string option \<Rightarrow> int \<Rightarrow> int \<Rightarrow> int \<Rightarrow> strategy \<Rightarrow> error + 'ds input_data" where
  "get_pretrain_input_data env input_file_pattern seq_length max_predictions batch_size strat =
     (let use_dataset_fn = (strategy_class strat = TPUStrategy) in
      if use_dataset_fn then
        (if num_replicas_in_sync strat = 0 then Inl ZeroDivisionError
         else if batch_size mod num_replicas_in_sync strat \<noteq> 0 then
           Inl (ValueError ''Batch size must be divisible by number of replicas : {}''
                  [IntArg (num_replicas_in_sync strat)])
         else
           (case per_replica_batch_size batch_size (num_replicas_in_sync strat) of
              Inl e \<Rightarrow> Inl e
            | Inr per_replica \<Rightarrow>
                Inr (DatasetFn input_file_pattern seq_length max_predictions per_replica)))
      else
        (case dataset_fn env input_file_pattern seq_length max_predictions batch_size of
           Inl e \<Rightarrow> Inl e
         | Inr ds \<Rightarrow> Inr (Dataset ds)))"

subsection \<open>run_customized_training, run_bert_pretrain and main\<close>

text \<open>
  The closures handed to the external training loop, each given by the variables it
  captured: \<open>functools.partial(get_pretrain_input_data, input_files, max_seq_length,
  max_predictions_per_seq, train_batch_size, strategy)\<close>, the local function
  \<open>_get_pretrain_model\<close> (configuration, sequence length, predictions per sequence,
  initial learning rate, steps per epoch, epochs, warm-up steps) and \<open>get_loss_fn()\<close>
  with its loss scale.
\<close>

datatype train_input_fn = TrainInputFn "string option" int int int strategy

datatype model_fn = GetPretrainModel json int int rat int int rat

datatype loss_fn = BertPretrainLossFn rat

fun apply_train_input_fn :: "'ds input_env \<Rightarrow> train_input_fn \<Rightarrow> error + 'ds input_data" where
  "apply_train_input_fn env (TrainInputFn pattern seq_length max_predictions batch_size strat) =
     get_pretrain_input_data env pattern seq_length max_predictions batch_size strat"

record training_loop_args =
  loop_strategy :: strategy
  loop_model_fn :: model_fn
  loop_loss_fn :: loss_fn
  loop_model_dir :: "string option"
  loop_train_input_fn :: train_input_fn
  loop_steps_per_epoch :: int
  loop_epochs :: int
  loop_use_remote_tpu :: json

datatype pretrain_event =
    NewMirroredStrategy
  | TpuInitialize string
  | NewTPUStrategy string
  | Print string "format_arg list"
  | BertConfigFromJsonFile "string option"
  | LoggingInfo string
  | RunCustomizedTrainingLoop training_loop_args

text \<open>
  What the framework answers: its version string, the replica count of a new
  \<open>MirroredStrategy()\<close>, the cluster resolver of \<open>tpu_lib.tpu_initialize\<close>, the
  replica count of a new \<open>TPUStrategy(cluster_resolver)\<close>, the configuration read by
  \<open>BertConfig.from_json_file\<close> and the result of
  \<open>model_training_utils.run_customized_training_loop\<close>.
\<close>

record pretrain_env =
  tf_version :: string
  new_mirrored_strategy :: "error + int"
  tpu_initialize :: "string \<Rightarrow> error + string"
  new_tpu_strategy :: "string \<Rightarrow> error + int"
  bert_config_from_json_file :: "string option \<Rightarrow> error + json"
  run_customized_training_loop :: "training_loop_args \<Rightarrow> error + json"

type_synonym pretrain_state = "pretrain_event process"

definition run_customized_training ::
  "pretrain_env \<Rightarrow> strategy \<Rightarrow> json \<Rightarrow> int \<Rightarrow> int \<Rightarrow> string option \<Rightarrow> int \<Rightarrow> int \<Rightarrow> rat \<Rightarrow> rat \<Rightarrow>
     string option \<Rightarrow> int \<Rightarrow> json \<Rightarrow> (pretrain_state, json) action" where
  "run_customized_training env strat bert_config seq_length max_predictions dir
       steps_per_epoch epochs initial_lr warmup files batch_size use_remote_tpu =
     (let args =
        \<lparr> loop_strategy = strat,
          loop_model_fn = GetPretrainModel bert_config seq_length max_predictions initial_lr
                            steps_per_epoch epochs warmup,
          loop_loss_fn = BertPretrainLossFn 1,
          loop_model_dir = dir,
          loop_train_input_fn = TrainInputFn files seq_length max_predictions batch_size strat,
          loop_steps_per_epoch = steps_per_epoch,
          loop_epochs = epochs,
          loop_use_remote_tpu = use_remote_tpu \<rparr>
      in call (RunCustomizedTrainingLoop args) (run_customized_training_loop env args))"

definition run_bert_pretrain :: "pretrain_env \<Rightarrow> strategy option \<Rightarrow> (pretrain_state, json) action" where
  "run_bert_pretrain env strat s =
     and_then
       (call (BertConfigFromJsonFile (bert_config_file (FLAGS s)))
          (bert_config_from_json_file env (bert_config_file (FLAGS s))))
       (\<lambda>bert_config.
          case strat of
            None \<Rightarrow> raise (ValueError ''Distribution strategy is not specified.'' [])
          | Some st \<Rightarrow>
              and_then
                (log_event (LoggingInfo
                   ''Training using customized training loop TF 2.0 with distrubutedstrategy.''))
                (\<lambda>_ s'.
                   let use_remote_tpu =
                         (if strategy_type (FLAGS s') = ''tpu'' then JStr (tpu (FLAGS s'))
                          else JBool False)
                   in run_customized_training env st bert_config
                        (max_seq_length (FLAGS s'))
                        (max_predictions_per_seq (FLAGS s'))
                        (model_dir (FLAGS s'))
                        (num_steps_per_epoch (FLAGS s'))
                        (num_train_epochs (FLAGS s'))
                        (learning_rate (FLAGS s'))
                        (warmup_steps (FLAGS s'))
                        (input_files (FLAGS s'))
                        (train_batch_size (FLAGS s'))
                        use_remote_tpu s'))
       s"

text \<open>\<open>if not FLAGS.model_dir: FLAGS.model_dir = '/tmp/bert20/'\<close>\<close>

definition default_model_dir :: "(pretrain_state, unit) action" where
  "default_model_dir s =
     (if model_dir (FLAGS s) = None \<or> model_dir (FLAGS s) = Some []
      then (Inr (), s\<lparr>FLAGS := (FLAGS s)\<lparr>model_dir := Some ''/tmp/bert20/''\<rparr>\<rparr>)
      else (Inr (), s))"

text \<open>The \<open>if\<close>/\<open>elif\<close>/\<open>else\<close> of \<open>main\<close> that picks the strategy.\<close>

definition select_strategy :: "pretrain_env \<Rightarrow> (pretrain_state, strategy option) action" where
  "select_strategy env s =
     (if strategy_type (FLAGS s) = ''mirror'' then
        and_then (call NewMirroredStrategy (new_mirrored_strategy env))
          (\<lambda>n. returns (Some \<lparr>strategy_class = MirroredStrategy, num_replicas_in_sync = n\<rparr>)) s
      else if strategy_type (FLAGS s) = ''tpu'' then
        and_then (call (TpuInitialize (tpu (FLAGS s))) (tpu_initialize env (tpu (FLAGS s))))
          (\<lambda>cluster_resolver.
             and_then (call (NewTPUStrategy cluster_resolver) (new_tpu_strategy env cluster_resolver))
               (\<lambda>n. returns (Some \<lparr>strategy_class = TPUStrategy, num_replicas_in_sync = n\<rparr>))) s
      else
        raise (ValueError ''The distribution strategy type is not supported: %s''
                 [StrArg (strategy_type (FLAGS s))]) s)"

definition main :: "pretrain_env \<Rightarrow> (pretrain_state, json) action" where
  "main env =
     (if \<not> startswith (tf_version env) ''2.'' then raise AssertionError
      else
        and_then default_model_dir
          (\<lambda>_. and_then (select_strategy env)
             (\<lambda>strat.
                and_then
                  (case strat of
                     None \<Rightarrow> returns ()
                   | Some st \<Rightarrow>
                       log_event (Print ''***** Number of cores used : ''
                                    [IntArg (num_replicas_in_sync st)]))
                  (\<lambda>_. run_bert_pretrain env strat))))"

section \<open>official/bert/benchmark/bert_squad_benchmark.py\<close>

definition PRETRAINED_CHECKPOINT_PATH :: string where
  "PRETRAINED_CHECKPOINT_PATH =
     ''gs://cloud-tpu-checkpoints/bert/tf_20/uncased_L-24_H-1024_A-16/bert_model.ckpt''"

definition SQUAD_TRAIN_DATA_PATH :: string where
  "SQUAD_TRAIN_DATA_PATH = ''gs://tf-perfzero-data/bert/squad/squad_train.tf_record''"

definition SQUAD_PREDICT_FILE :: string where
  "SQUAD_PREDICT_FILE = ''gs://tf-perfzero-data/bert/squad/dev-v1.1.json''"

definition SQUAD_VOCAB_FILE :: string where
  "SQUAD_VOCAB_FILE = ''gs://tf-perfzero-data/bert/squad/vocab.txt''"

definition SQUAD_SMALL_INPUT_META_DATA_PATH :: string where
  "SQUAD_SMALL_INPUT_META_DATA_PATH = ''gs://tf-perfzero-data/bert/squad/squad_small_meta_data''"

definition SQUAD_FULL_INPUT_META_DATA_PATH :: string where
  "SQUAD_FULL_INPUT_META_DATA_PATH = ''gs://tf-perfzero-data/bert/squad/squad_full_meta_data''"

definition MODEL_CONFIG_FILE_PATH :: string where
  "MODEL_CONFIG_FILE_PATH =
     ''gs://cloud-tpu-checkpoints/bert/tf_20/uncased_L-24_H-1024_A-16/bert_config''"

subsection \<open>The world outside the benchmark\<close>

text \<open>
  The file system (each file's text, as \<open>GFile\<close> reads it and UTF-8 decodes it) and the
  clock that \<open>time.time()\<close> reads, in seconds.
\<close>

record world =
  file_text :: "string \<rightharpoonup> string"
  clock :: rat

text \<open>
  The calls that leave the module. A file read carries the path and the text read
  (\<open>None\<close> when there is no such file); \<open>run_squad.train_squad\<close> and
  \<open>run_squad.predict_squad\<close> carry their strategy and input metadata arguments and the
  flags they run under; \<open>_report_benchmark\<close> of the base class carries \<open>stats\<close>,
  \<open>wall_time_sec\<close>, \<open>min_accuracy\<close> and \<open>max_accuracy\<close>.
\<close>

datatype squad_event =
    BaseSetup
  | TimeTime rat
  | GFileRead string "string option"
  | GetDistributionStrategy string int
  | TrainSquad strategy json flags
  | PredictSquad strategy json flags
  | Evaluate json json
  | ReportBenchmark json rat rat rat

text \<open>
  What the code outside the module answers: \<open>BertBenchmarkBase._setup\<close> (it resets the
  flags), \<open>BertBenchmarkBase._get_model_dir\<close>, \<open>json.loads\<close>,
  \<open>distribution_utils.get_distribution_strategy\<close>, the two entry points of
  \<open>run_squad\<close> (they change the world: files written, time passed),
  \<open>squad_evaluate_v1_1.evaluate\<close>, \<open>BertBenchmarkBase._report_benchmark\<close>, and the
  time a read of a file takes.
\<close>

record squad_env =
  base_setup :: "flags \<Rightarrow> error + flags"
  get_model_dir :: "string \<Rightarrow> string"
  json_loads :: "string \<Rightarrow> error + json"
  get_distribution_strategy :: "string \<Rightarrow> int \<Rightarrow> error + strategy"
  run_squad_train_squad :: "strategy \<Rightarrow> json \<Rightarrow> flags \<Rightarrow> world \<Rightarrow> (error + unit) \<times> world"
  run_squad_predict_squad :: "strategy \<Rightarrow> json \<Rightarrow> flags \<Rightarrow> world \<Rightarrow> (error + unit) \<times> world"
  squad_evaluate :: "json \<Rightarrow> json \<Rightarrow> error + json"
  report_benchmark :: "json \<Rightarrow> rat \<Rightarrow> rat \<Rightarrow> rat \<Rightarrow> error + unit"
  read_latency :: "string \<Rightarrow> rat"

text \<open>
  The benchmark object: the process it runs in, \<open>self.num_gpus\<close>, \<open>self.eval_metrics\<close>
  (unset until \<open>_evaluate_squad\<close> stores it) and the world.
\<close>

record bench = "squad_event process" +
  num_gpus :: int
  eval_metrics :: "json option"
  world :: world

definition of_result :: "error + 'a \<Rightarrow> ('s, 'a) action" where
  "of_result r = (case r of Inl e \<Rightarrow> raise e | Inr v \<Rightarrow> returns v)"

definition time_time :: "(bench, rat) action" where
  "time_time s = (Inr (clock (world s)), s\<lparr>trace := trace s @ [TimeTime (clock (world s))]\<rparr>)"

text \<open>
  \<open>with tf.io.gfile.GFile(path, ...) as reader: reader.read()\<close>, decoded to text. A path
  that is \<open>None\<close> is a \<open>TypeError\<close>, a missing file a \<open>NotFoundError\<close>.
\<close>

definition gfile_read :: "squad_env \<Rightarrow> string option \<Rightarrow> (bench, string) action" where
  "gfile_read env path s =
     (case path of
        None \<Rightarrow> (Inl TypeError, s)
      | Some p \<Rightarrow>
          (case file_text (world s) p of
             None \<Rightarrow> (Inl (NotFoundError p), s\<lparr>trace := trace s @ [GFileRead p None]\<rparr>)
           | Some text \<Rightarrow>
               (Inr text,
                s\<lparr>trace := trace s @ [GFileRead p (Some text)],
                  world := (world s)\<lparr>clock := clock (world s) + read_latency env p\<rparr>\<rparr>)))"

text \<open>A call into \<open>run_squad\<close>: it sees the flags and changes the world.\<close>

definition framework_call ::
  "squad_event \<Rightarrow> (flags \<Rightarrow> world \<Rightarrow> (error + unit) \<times> world) \<Rightarrow> (bench, unit) action" where
  "framework_call e f s =
     (case f (FLAGS s) (world s) of
        (r, w) \<Rightarrow> (r, s\<lparr>trace := trace s @ [e], world := w\<rparr>))"

text \<open>
  The decorator \<open>@flagsaver.flagsaver\<close>: the flag values are saved before the call and
  restored after it, also when it raises.
\<close>

definition flagsaver :: "(bench, 'a) action \<Rightarrow> (bench, 'a) action" where
  "flagsaver m s = (case m s of (r, s') \<Rightarrow> (r, s'\<lparr>FLAGS := FLAGS s\<rparr>))"

subsection \<open>BertSquadBenchmarkBase\<close>

definition read_training_summary_from_file :: "squad_env \<Rightarrow> (bench, json) action" where
  "read_training_summary_from_file env s =
     (case model_dir (FLAGS s) of
        None \<Rightarrow> raise TypeError s
      | Some dir \<Rightarrow>
          and_then (gfile_read env (Some (os_path_join dir ''training_summary.txt'')))
            (\<lambda>text. of_result (json_loads env text)) s)"

definition read_input_meta_data_from_file :: "squad_env \<Rightarrow> (bench, json) action" where
  "read_input_meta_data_from_file env s =
     and_then (gfile_read env (input_meta_data_path (FLAGS s)))
       (\<lambda>text. of_result (json_loads env text)) s"

definition read_predictions_dataset_from_file :: "squad_env \<Rightarrow> (bench, json) action" where
  "read_predictions_dataset_from_file env =
     and_then (gfile_read env (Some SQUAD_PREDICT_FILE))
       (\<lambda>text. and_then (of_result (json_loads env text))
          (\<lambda>dataset_json. of_result (getitem dataset_json ''data'')))"

definition read_predictions_from_file :: "squad_env \<Rightarrow> (bench, json) action" where
  "read_predictions_from_file env s =
     (case model_dir (FLAGS s) of
        None \<Rightarrow> raise TypeError s
      | Some dir \<Rightarrow>
          and_then (gfile_read env (Some (os_path_join dir ''predictions.json'')))
            (\<lambda>text. of_result (json_loads env text)) s)"

definition get_distribution_strategy_method :: "squad_env \<Rightarrow> (bench, strategy) action" where
  "get_distribution_strategy_method env s =
     call (GetDistributionStrategy ''mirrored'' (num_gpus s))
       (get_distribution_strategy env ''mirrored'' (num_gpus s)) s"

definition train_squad :: "squad_env \<Rightarrow> (bench, unit) action" where
  "train_squad env =
     flagsaver
       (and_then (read_input_meta_data_from_file env)
          (\<lambda>input_meta_data.
             and_then (get_distribution_strategy_method env)
               (\<lambda>strat s.
                  framework_call (TrainSquad strat input_meta_data (FLAGS s))
                    (run_squad_train_squad env strat input_meta_data) s)))"

definition evaluate_squad :: "squad_env \<Rightarrow> (bench, unit) action" where
  "evaluate_squad env =
     flagsaver
       (and_then (read_input_meta_data_from_file env)
          (\<lambda>input_meta_data.
             and_then (get_distribution_strategy_method env)
               (\<lambda>strat.
                  and_then
                    (\<lambda>s. framework_call (PredictSquad strat input_meta_data (FLAGS s))
                           (run_squad_predict_squad env strat input_meta_data) s)
                    (\<lambda>_.
                       and_then (read_predictions_dataset_from_file env)
                         (\<lambda>dataset.
                            and_then (read_predictions_from_file env)
                              (\<lambda>predictions.
                                 and_then
                                   (call (Evaluate dataset predictions)
                                      (squad_evaluate env dataset predictions))
                                   (\<lambda>metrics.
                                      and_then (of_result (getitem metrics ''f1''))
                                        (\<lambda>f1 s. (Inr (), s\<lparr>eval_metrics := Some f1\<rparr>)))))))))"

text \<open>\<open>super()._setup()\<close> of both test classes.\<close>

definition super_setup :: "squad_env \<Rightarrow> (bench, unit) action" where
  "super_setup env s =
     (case base_setup env (FLAGS s) of
        Inl e \<Rightarrow> (Inl e, s\<lparr>trace := trace s @ [BaseSetup]\<rparr>)
      | Inr fl \<Rightarrow> (Inr (), s\<lparr>trace := trace s @ [BaseSetup], FLAGS := fl\<rparr>))"

text \<open>The assignments a \<open>benchmark_N_gpu\<close> method makes between setup and run.\<close>

definition assign_run_flags :: "int \<Rightarrow> string \<Rightarrow> int \<Rightarrow> (bench, unit) action" where
  "assign_run_flags n dir batch_size s =
     (Inr (), s\<lparr>num_gpus := n,
                FLAGS := (FLAGS s)\<lparr>model_dir := Some dir, train_batch_size := batch_size\<rparr>\<rparr>)"

subsection \<open>BertSquadBenchmarkReal\<close>

definition BertSquadBenchmarkReal_setup :: "squad_env \<Rightarrow> (bench, unit) action" where
  "BertSquadBenchmarkReal_setup env =
     and_then (super_setup env)
       (\<lambda>_ s. (Inr (),
          s\<lparr>FLAGS := (FLAGS s)
             \<lparr>train_data_path := Some SQUAD_TRAIN_DATA_PATH,
              predict_file := Some SQUAD_PREDICT_FILE,
              vocab_file := Some SQUAD_VOCAB_FILE,
              input_meta_data_path := Some SQUAD_SMALL_INPUT_META_DATA_PATH,
              bert_config_file := Some MODEL_CONFIG_FILE_PATH,
              num_train_epochs := 1\<rparr>\<rparr>))"

definition BertSquadBenchmarkReal_run_and_report_benchmark :: "squad_env \<Rightarrow> (bench, unit) action" where
  "BertSquadBenchmarkReal_run_and_report_benchmark env =
     and_then time_time
       (\<lambda>start_time_sec.
          and_then (train_squad env)
            (\<lambda>_. and_then time_time
               (\<lambda>end_time_sec.
                  let wall_time_sec = end_time_sec - start_time_sec in
                  and_then (read_training_summary_from_file env)
                    (\<lambda>summary.
                       call (ReportBenchmark summary wall_time_sec 0 1)
                         (report_benchmark env summary wall_time_sec 0 1)))))"

definition BertSquadBenchmarkReal_benchmark_1_gpu :: "squad_env \<Rightarrow> (bench, unit) action" where
  "BertSquadBenchmarkReal_benchmark_1_gpu env =
     and_then (BertSquadBenchmarkReal_setup env)
       (\<lambda>_. and_then (assign_run_flags 1 (get_model_dir env ''benchmark_1_gpu_squad'') 4)
          (\<lambda>_. BertSquadBenchmarkReal_run_and_report_benchmark env))"

definition BertSquadBenchmarkReal_benchmark_2_gpu :: "squad_env \<Rightarrow> (bench, unit) action" where
  "BertSquadBenchmarkReal_benchmark_2_gpu env =
     and_then (BertSquadBenchmarkReal_setup env)
       (\<lambda>_. and_then (assign_run_flags 2 (get_model_dir env ''benchmark_2_gpu_squad'') 8)
          (\<lambda>_. BertSquadBenchmarkReal_run_and_report_benchmark env))"

definition BertSquadBenchmarkReal_benchmark_4_gpu :: "squad_env \<Rightarrow> (bench, unit) action" where
  "BertSquadBenchmarkReal_benchmark_4_gpu env =
     and_then (BertSquadBenchmarkReal_setup env)
       (\<lambda>_. and_then (assign_run_flags 4 (get_model_dir env ''benchmark_4_gpu_squad'') 16)
          (\<lambda>_. BertSquadBenchmarkReal_run_and_report_benchmark env))"

definition BertSquadBenchmarkReal_benchmark_8_gpu :: "squad_env \<Rightarrow> (bench, unit) action" where
  "BertSquadBenchmarkReal_benchmark_8_gpu env =
     and_then (BertSquadBenchmarkReal_setup env)
       (\<lambda>_. and_then (assign_run_flags 8 (get_model_dir env ''benchmark_8_gpu_squad'') 32)
          (\<lambda>_. BertSquadBenchmarkReal_run_and_report_benchmark env))"

subsection \<open>BertSquadAccuracy\<close>

definition BertSquadAccuracy_setup :: "squad_env \<Rightarrow> (bench, unit) action" where
  "BertSquadAccuracy_setup env =
     and_then (super_setup env)
       (\<lambda>_ s. (Inr (),
          s\<lparr>FLAGS := (FLAGS s)
             \<lparr>train_data_path := Some SQUAD_TRAIN_DATA_PATH,
              predict_file := Some SQUAD_PREDICT_FILE,
              vocab_file := Some SQUAD_VOCAB_FILE,
              input_meta_data_path := Some SQUAD_FULL_INPUT_META_DATA_PATH,
              bert_config_file := Some MODEL_CONFIG_FILE_PATH,
              init_checkpoint := Some PRETRAINED_CHECKPOINT_PATH,
              num_train_epochs := 2\<rparr>\<rparr>))"

text \<open>\<open>summary['eval_metrics'] = self.eval_metrics\<close>: the attribute is read first.\<close>

definition store_eval_metrics :: "json \<Rightarrow> (bench, json) action" where
  "store_eval_metrics summary s =
     (case eval_metrics s of
        None \<Rightarrow> raise AttributeError s
      | Some metric \<Rightarrow> of_result (setitem summary ''eval_metrics'' metric) s)"

definition BertSquadAccuracy_run_and_report_benchmark :: "squad_env \<Rightarrow> (bench, unit) action" where
  "BertSquadAccuracy_run_and_report_benchmark env =
     and_then time_time
       (\<lambda>start_time_sec.
          and_then (train_squad env)
            (\<lambda>_. and_then (evaluate_squad env)
               (\<lambda>_. and_then time_time
                  (\<lambda>end_time_sec.
                     let wall_time_sec = end_time_sec - start_time_sec in
                     and_then (read_training_summary_from_file env)
                       (\<lambda>summary.
                          and_then (store_eval_metrics summary)
                            (\<lambda>stats.
                               call (ReportBenchmark stats wall_time_sec 0.900 0.908)
                                 (report_benchmark env stats wall_time_sec 0.900 0.908)))))))"

definition BertSquadAccuracy_benchmark_8_gpu :: "squad_env \<Rightarrow> (bench, unit) action" where
  "BertSquadAccuracy_benchmark_8_gpu env =
     and_then (BertSquadAccuracy_setup env)
       (\<lambda>_. and_then (assign_run_flags 8 (get_model_dir env ''benchmark_8_gpu_squad'') 32)
          (\<lambda>_. BertSquadAccuracy_run_and_report_benchmark env))"

subsection \<open>What the benchmark's steps may log\<close>

text \<open>
  The calls a step of a benchmark may make when \<open>self.num_gpus\<close> is \<open>n\<close> and the flags
  are \<open>fl\<close>, short of the final report: the strategy is asked for by the name
  \<open>mirrored\<close> with \<open>n\<close> GPUs, and training and prediction run under the strategy so
  obtained and under \<open>fl\<close>.
\<close>

fun event_ok :: "squad_env \<Rightarrow> int \<Rightarrow> flags \<Rightarrow> squad_event \<Rightarrow> bool" where
  "event_ok env n fl (GetDistributionStrategy name k) = (name = ''mirrored'' \<and> k = n)"
| "event_ok env n fl (TrainSquad strat meta fl') =
     (fl' = fl \<and> get_distribution_strategy env ''mirrored'' n = Inr strat)"
| "event_ok env n fl (PredictSquad strat meta fl') =
     (fl' = fl \<and> get_distribution_strategy env ''mirrored'' n = Inr strat)"
| "event_ok env n fl (ReportBenchmark stats wall lo hi) = False"
| "event_ok env n fl BaseSetup = False"
| "event_ok env n fl e = True"

text \<open>
  How a call uses the distribution strategy when \<open>self.num_gpus\<close> is \<open>n\<close>: a strategy is
  asked for by the name \<open>mirrored\<close> with \<open>n\<close> GPUs, and training and prediction run under
  what that request answers.
\<close>

fun strategy_use_ok :: "squad_env \<Rightarrow> int \<Rightarrow> squad_event \<Rightarrow> bool" where
  "strategy_use_ok env n (GetDistributionStrategy name k) = (name = ''mirrored'' \<and> k = n)"
| "strategy_use_ok env n (TrainSquad strat meta fl) =
     (get_distribution_strategy env ''mirrored'' n = Inr strat)"
| "strategy_use_ok env n (PredictSquad strat meta fl) =
     (get_distribution_strategy env ''mirrored'' n = Inr strat)"
| "strategy_use_ok env n e = True"

text \<open>A step leaves \<open>self.num_gpus\<close> and the flags as they are and logs such calls only.\<close>

definition steps :: "squad_env \<Rightarrow> (bench, 'a) action \<Rightarrow> bench \<Rightarrow> bool" where
  "steps env m s \<longleftrightarrow>
     num_gpus (snd (m s)) = num_gpus s \<and> FLAGS (snd (m s)) = FLAGS s \<and>
     (\<exists>evs. trace (snd (m s)) = trace s @ evs \<and> list_all (event_ok env (num_gpus s) (FLAGS s)) evs)"

definition run_event_ok :: "squad_env \<Rightarrow> int \<Rightarrow> flags \<Rightarrow> squad_event \<Rightarrow> bool" where
  "run_event_ok env n fl e \<longleftrightarrow>
     event_ok env n fl e \<or> (\<exists>stats wall lo hi. e = ReportBenchmark stats wall lo hi)"

text \<open>
  A concrete environment for evaluation: every pattern matches itself, and the dataset is
  the pair of the files and the batch size it was built from.
\<close>

definition demo_input_env :: "(string list \<times> int) input_env" where
  "demo_input_env =
     \<lparr> glob = (\<lambda>pattern. Inr [pattern]),
       create_pretrain_dataset = (\<lambda>files seq_length max_predictions batch_size.
          Inr (files, batch_size)) \<rparr>"

definition mirrored2 :: strategy where
  "mirrored2 = \<lparr> strategy_class = MirroredStrategy, num_replicas_in_sync = 2 \<rparr>"

definition tpu8 :: strategy where
  "tpu8 = \<lparr> strategy_class = TPUStrategy, num_replicas_in_sync = 8 \<rparr>"

text \<open>
  A concrete framework for evaluation, of a given version: two mirrored replicas, eight
  TPU replicas, an empty configuration and a training loop that returns \<open>None\<close>.
\<close>

definition demo_pretrain_env :: "string \<Rightarrow> pretrain_env" where
  "demo_pretrain_env version =
     \<lparr> tf_version = version,
       new_mirrored_strategy = Inr 2,
       tpu_initialize = (\<lambda>address. Inr (''grpc://'' @ address)),
       new_tpu_strategy = (\<lambda>cluster_resolver. Inr 8),
       bert_config_from_json_file = (\<lambda>file. Inr (JDict [])),
       run_customized_training_loop = (\<lambda>args. Inr JNull) \<rparr>"

text \<open>The flag defaults of \<open>run_pretraining.py\<close>, with a given \<open>strategy_type\<close>.\<close>

definition demo_flags :: "string \<Rightarrow> flags" where
  "demo_flags st =
     \<lparr> input_files = Some ''a,b'', bert_config_file = Some ''bert_config.json'',
       model_dir = None, tpu = ''10.0.0.2'', strategy_type = st,
       max_seq_length = 128, max_predictions_per_seq = 20, train_batch_size = 32,
       num_train_epochs = 3, num_steps_per_epoch = 1000, learning_rate = 5 / 100000,
       warmup_steps = 10000, train_data_path = None, predict_file = None,
       vocab_file = None, input_meta_data_path = None, init_checkpoint = None \<rparr>"

definition demo_pretrain_state :: "string \<Rightarrow> pretrain_state" where
  "demo_pretrain_state st = \<lparr> FLAGS = demo_flags st, trace = [] \<rparr>"

text \<open>
  A whole \<open>_run_and_report_benchmark\<close> also leaves \<open>self.num_gpus\<close> and the flags as
  they are, and only adds to the trace.
\<close>

definition keeps :: "(bench, 'a) action \<Rightarrow> bench \<Rightarrow> bool" where
  "keeps m s \<longleftrightarrow>
     num_gpus (snd (m s)) = num_gpus s \<and> FLAGS (snd (m s)) = FLAGS s \<and>
     (\<exists>evs. trace (snd (m s)) = trace s @ evs)"

subsection \<open>A concrete world for evaluation\<close>

text \<open>
  A decoder that knows four texts, a framework that writes the summary and the predictions
  under \<open>FLAGS.model_dir\<close> and takes 100 and 10 seconds, a scorer that answers an exact
  match of 0.83 and an F1 of 0.904, and reads that take one second each.
\<close>

definition demo_json_loads :: "string \<Rightarrow> error + json" where
  "demo_json_loads text =
     (if text = ''META'' then Inr (JDict [])
      else if text = ''DATASET'' then Inr (JDict [(''version'', JStr ''1.1''), (''data'', JList [])])
      else if text = ''PREDICTIONS'' then Inr (JDict [])
      else if text = ''SUMMARY'' then Inr (JDict [(''train_loss'', JNum 1.5)])
      else Inl (ValueError ''Expecting value'' []))"

definition demo_write :: "flags \<Rightarrow> string \<Rightarrow> string \<Rightarrow> rat \<Rightarrow> world \<Rightarrow> (error + unit) \<times> world" where
  "demo_write fl name text seconds w =
     (case model_dir fl of
        None \<Rightarrow> (Inl TypeError, w)
      | Some dir \<Rightarrow>
          (Inr (), w\<lparr>file_text := (file_text w)(os_path_join dir name \<mapsto> text),
                     clock := clock w + seconds\<rparr>))"

definition demo_squad_env :: squad_env where
  "demo_squad_env =
     \<lparr> base_setup = (\<lambda>fl. Inr fl),
       get_model_dir = (\<lambda>name. os_path_join ''/tmp'' name),
       json_loads = demo_json_loads,
       get_distribution_strategy = (\<lambda>name n.
          Inr \<lparr>strategy_class = MirroredStrategy, num_replicas_in_sync = n\<rparr>),
       run_squad_train_squad = (\<lambda>strat meta fl.
          demo_write fl ''training_summary.txt'' ''SUMMARY'' 100),
       run_squad_predict_squad = (\<lambda>strat meta fl.
          demo_write fl ''predictions.json'' ''PREDICTIONS'' 10),
       squad_evaluate = (\<lambda>dataset predictions.
          Inr (JDict [(''exact_match'', JNum 0.83), (''f1'', JNum 0.904)])),
       report_benchmark = (\<lambda>stats wall lo hi. Inr ()),
       read_latency = (\<lambda>path. 1) \<rparr>"

definition demo_world :: world where
  "demo_world =
     \<lparr> file_text = [SQUAD_SMALL_INPUT_META_DATA_PATH \<mapsto> ''META'',
                     SQUAD_FULL_INPUT_META_DATA_PATH \<mapsto> ''META'',
                     SQUAD_PREDICT_FILE \<mapsto> ''DATASET''],
       clock = 1000 \<rparr>"

definition demo_bench :: bench where
  "demo_bench =
     \<lparr> FLAGS = demo_flags ''mirror'', trace = [], num_gpus = 8, eval_metrics = None,
       world = demo_world \<rparr>"

text \<open>
  The benchmark object once a test method has set the flags a run reads, and the flags
  under which \<open>BertSquadAccuracy.benchmark_8_gpu\<close> and
  \<open>BertSquadBenchmarkReal.benchmark_2_gpu\<close> run from \<open>demo_bench\<close>.
\<close>

definition demo_ready :: bench where
  "demo_ready =
     demo_bench\<lparr>FLAGS := (demo_flags ''mirror'')
       \<lparr>model_dir := Some ''/tmp/model'',
        input_meta_data_path := Some SQUAD_SMALL_INPUT_META_DATA_PATH\<rparr>\<rparr>"

definition demo_accuracy_flags :: flags where
  "demo_accuracy_flags =
     (demo_flags ''mirror'')
       \<lparr>train_data_path := Some SQUAD_TRAIN_DATA_PATH,
        predict_file := Some SQUAD_PREDICT_FILE,
        vocab_file := Some SQUAD_VOCAB_FILE,
        input_meta_data_path := Some SQUAD_FULL_INPUT_META_DATA_PATH,
        bert_config_file := Some MODEL_CONFIG_FILE_PATH,
        init_checkpoint := Some PRETRAINED_CHECKPOINT_PATH,
        num_train_epochs := 2,
        model_dir := Some ''/tmp/benchmark_8_gpu_squad'',
        train_batch_size := 32\<rparr>"

definition demo_real_flags :: flags where
  "demo_real_flags =
     (demo_flags ''mirror'')
       \<lparr>train_data_path := Some SQUAD_TRAIN_DATA_PATH,
        predict_file := Some SQUAD_PREDICT_FILE,
        vocab_file := Some SQUAD_VOCAB_FILE,
        input_meta_data_path := Some SQUAD_SMALL_INPUT_META_DATA_PATH,
        bert_config_file := Some MODEL_CONFIG_FILE_PATH,
        num_train_epochs := 1,
        model_dir := Some ''/tmp/benchmark_2_gpu_squad'',
        train_batch_size := 8\<rparr>"

definition mirrored :: "int \<Rightarrow> strategy" where
  "mirrored n = \<lparr>strategy_class = MirroredStrategy, num_replicas_in_sync = n\<rparr>"

section \<open>official/resnet/keras/keras_imagenet_test.py\<close>

text \<open>
  The calls that leave the test class: \<open>keras_utils.get_config_proto_v1\<close>,
  \<open>tf.compat.v1.enable_eager_execution\<close> with its configuration, \<open>context.num_gpus\<close>
  with the count it answered, \<open>mkdtemp\<close> with its \<open>dir\<close> argument, \<open>tearDown\<close> of
  the base class, \<open>tf.io.gfile.rmtree\<close> with its path, and \<open>integration.run_synthetic\<close>
  with its \<open>tmp_root\<close> and \<open>extra_flags\<close> arguments (its \<open>main\<close> is always
  \<open>keras_imagenet_main.run\<close>).
\<close>

type_synonym config_proto = string

datatype keras_event =
    GetConfigProtoV1
  | EnableEagerExecution config_proto
  | NumGpus int
  | Mkdtemp string
  | SuperTearDown
  | Rmtree string
  | RunSynthetic string "string list"

text \<open>
  What the code outside the class answers, each answer depending on, and changing, a
  world \<open>'w\<close> of its own (the file system, the devices, the eager context):
  \<open>googletest.GetTempDir()\<close>, then the functions behind the calls above.
\<close>

record 'w keras_env =
  googletest_GetTempDir :: string
  mkdtemp :: "string \<Rightarrow> 'w \<Rightarrow> (error + string) \<times> 'w"
  rmtree :: "string \<Rightarrow> 'w \<Rightarrow> (error + unit) \<times> 'w"
  super_tearDown :: "'w \<Rightarrow> (error + unit) \<times> 'w"
  get_config_proto_v1 :: "'w \<Rightarrow> (error + config_proto) \<times> 'w"
  enable_eager_execution :: "config_proto \<Rightarrow> 'w \<Rightarrow> (error + unit) \<times> 'w"
  context_num_gpus :: "'w \<Rightarrow> int"
  run_synthetic :: "string \<Rightarrow> string list \<Rightarrow> 'w \<Rightarrow> (error + unit) \<times> 'w"

text \<open>
  A test instance: \<open>self._tempdir\<close> (\<open>None\<close> in the class), the world outside, and the
  calls made so far.
\<close>

record 'w keras_test =
  tempdir :: "string option"
  outside :: 'w
  calls :: "keras_event list"

definition new_calls :: "('w keras_test, 'a) action \<Rightarrow> 'w keras_test \<Rightarrow> keras_event list" where
  "new_calls m s = drop (length (calls s)) (calls (snd (m s)))"

definition outside_call ::
  "keras_event \<Rightarrow> ('w \<Rightarrow> (error + 'a) \<times> 'w) \<Rightarrow> ('w keras_test, 'a) action" where
  "outside_call e f s =
     (case f (outside s) of (r, w) \<Rightarrow> (r, s\<lparr>outside := w, calls := calls s @ [e]\<rparr>))"

text \<open>
  \<open>get_temp_dir\<close>. \<open>not self._tempdir\<close> holds of \<open>None\<close> and of the empty string.
\<close>

definition get_temp_dir :: "'w keras_env \<Rightarrow> ('w keras_test, string) action" where
  "get_temp_dir env s =
     (if tempdir s = None \<or> tempdir s = Some [] then
        and_then
          (outside_call (Mkdtemp (googletest_GetTempDir env))
             (mkdtemp env (googletest_GetTempDir env)))
          (\<lambda>d s'. (Inr d, s'\<lparr>tempdir := Some d\<rparr>)) s
      else (Inr (the (tempdir s)), s))"

definition tearDown :: "'w keras_env \<Rightarrow> ('w keras_test, unit) action" where
  "tearDown env =
     and_then (outside_call SuperTearDown (super_tearDown env))
       (\<lambda>_. and_then (get_temp_dir env)
          (\<lambda>d. outside_call (Rmtree d) (rmtree env d)))"

text \<open>A method called \<open>n\<close> times in a row, with the values it returned.\<close>

fun repeatedly :: "nat \<Rightarrow> ('s, 'a) action \<Rightarrow> ('s, 'a list) action" where
  "repeatedly 0 m = returns []"
| "repeatedly (Suc n) m =
     and_then m (\<lambda>x. and_then (repeatedly n m) (\<lambda>xs. returns (x # xs)))"

text \<open>The class attribute \<open>_extra_flags\<close>.\<close>

definition extra_flags_of_class :: "string list" where
  "extra_flags_of_class =
     [''-batch_size'', ''4'', ''-train_steps'', ''1'', ''-use_synthetic_data'', ''true'']"

text \<open>
  The three fragments the test methods are made of:
  \<open>config = keras_utils.get_config_proto_v1();
  tf.compat.v1.enable_eager_execution(config=config)\<close>; the guard
  \<open>if context.num_gpus() < n: self.skipTest(... .format(n, context.num_gpus()))\<close>, which
  reads the count again for the message; and
  \<open>extra_flags = extra_flags + self._extra_flags; integration.run_synthetic(main=...,
  tmp_root=self.get_temp_dir(), extra_flags=extra_flags)\<close>.
\<close>

definition enable_eager :: "'w keras_env \<Rightarrow> ('w keras_test, unit) action" where
  "enable_eager env =
     and_then (outside_call GetConfigProtoV1 (get_config_proto_v1 env))
       (\<lambda>config. outside_call (EnableEagerExecution config) (enable_eager_execution env config))"

definition num_gpus_call :: "'w keras_env \<Rightarrow> ('w keras_test, int) action" where
  "num_gpus_call env s =
     (Inr (context_num_gpus env (outside s)),
      s\<lparr>calls := calls s @ [NumGpus (context_num_gpus env (outside s))]\<rparr>)"

definition skip_unless_gpus :: "'w keras_env \<Rightarrow> int \<Rightarrow> ('w keras_test, unit) action" where
  "skip_unless_gpus env n =
     and_then (num_gpus_call env)
       (\<lambda>available.
          if available < n then
            and_then (num_gpus_call env)
              (\<lambda>available'.
                 raise (SkipTest
                   ''{} GPUs are not available for this test. {} GPUs are available''
                   [IntArg n, IntArg available']))
          else returns ())"

definition run_synthetic_with :: "'w keras_env \<Rightarrow> string list \<Rightarrow> ('w keras_test, unit) action" where
  "run_synthetic_with env extra_flags =
     and_then (get_temp_dir env)
       (\<lambda>tmp_root.
          outside_call (RunSynthetic tmp_root (extra_flags @ extra_flags_of_class))
            (run_synthetic env tmp_root (extra_flags @ extra_flags_of_class)))"

definition test_end_to_end_no_dist_strat :: "'w keras_env \<Rightarrow> ('w keras_test, unit) action" where
  "test_end_to_end_no_dist_strat env =
     and_then (enable_eager env)
       (\<lambda>_. run_synthetic_with env
          [''-distribution_strategy'', ''off'', ''-model_dir'', ''keras_imagenet_no_dist_strat'',
           ''-data_format'', ''channels_last''])"

definition test_end_to_end_graph_no_dist_strat :: "'w keras_env \<Rightarrow> ('w keras_test, unit) action" where
  "test_end_to_end_graph_no_dist_strat env =
     run_synthetic_with env
       [''-enable_eager'', ''false'', ''-distribution_strategy'', ''off'',
        ''-model_dir'', ''keras_imagenet_graph_no_dist_strat'',
        ''-data_format'', ''channels_last'']"

definition test_end_to_end_1_gpu :: "'w keras_env \<Rightarrow> ('w keras_test, unit) action" where
  "test_end_to_end_1_gpu env =
     and_then (enable_eager env)
       (\<lambda>_. and_then (skip_unless_gpus env 1)
          (\<lambda>_. run_synthetic_with env
             [''-num_gpus'', ''1'', ''-distribution_strategy'', ''default'',
              ''-model_dir'', ''keras_imagenet_1_gpu'', ''-data_format'', ''channels_last'']))"

definition test_end_to_end_graph_1_gpu :: "'w keras_env \<Rightarrow> ('w keras_test, unit) action" where
  "test_end_to_end_graph_1_gpu env =
     and_then (skip_unless_gpus env 1)
       (\<lambda>_. run_synthetic_with env
          [''-num_gpus'', ''1'', ''-enable_eager'', ''false'',
           ''-distribution_strategy'', ''default'', ''-model_dir'', ''keras_imagenet_graph_1_gpu'',
           ''-data_format'', ''channels_last''])"

definition test_end_to_end_2_gpu :: "'w keras_env \<Rightarrow> ('w keras_test, unit) action" where
  "test_end_to_end_2_gpu env =
     and_then (enable_eager env)
       (\<lambda>_. and_then (skip_unless_gpus env 2)
          (\<lambda>_. run_synthetic_with env
             [''-num_gpus'', ''2'', ''-distribution_strategy'', ''default'',
              ''-model_dir'', ''keras_imagenet_2_gpu'']))"

definition test_end_to_end_xla_2_gpu :: "'w keras_env \<Rightarrow> ('w keras_test, unit) action" where
  "test_end_to_end_xla_2_gpu env =
     and_then (enable_eager env)
       (\<lambda>_. and_then (skip_unless_gpus env 2)
          (\<lambda>_. run_synthetic_with env
             [''-num_gpus'', ''2'', ''-enable_xla'', ''true'',
              ''-distribution_strategy'', ''default'', ''-model_dir'', ''keras_imagenet_xla_2_gpu'']))"

definition test_end_to_end_2_gpu_fp16 :: "'w keras_env \<Rightarrow> ('w keras_test, unit) action" where
  "test_end_to_end_2_gpu_fp16 env =
     and_then (enable_eager env)
       (\<lambda>_. and_then (skip_unless_gpus env 2)
          (\<lambda>_. run_synthetic_with env
             [''-num_gpus'', ''2'', ''-dtype'', ''fp16'',
              ''-distribution_strategy'', ''default'', ''-model_dir'', ''keras_imagenet_2_gpu_fp16'']))"

definition test_end_to_end_xla_2_gpu_fp16 :: "'w keras_env \<Rightarrow> ('w keras_test, unit) action" where
  "test_end_to_end_xla_2_gpu_fp16 env =
     and_then (enable_eager env)
       (\<lambda>_. and_then (skip_unless_gpus env 2)
          (\<lambda>_. run_synthetic_with env
             [''-num_gpus'', ''2'', ''-dtype'', ''fp16'', ''-enable_xla'', ''true'',
              ''-distribution_strategy'', ''default'',
              ''-model_dir'', ''keras_imagenet_xla_2_gpu_fp16'']))"

definition test_end_to_end_graph_2_gpu :: "'w keras_env \<Rightarrow> ('w keras_test, unit) action" where
  "test_end_to_end_graph_2_gpu env =
     and_then (skip_unless_gpus env 2)
       (\<lambda>_. run_synthetic_with env
          [''-num_gpus'', ''2'', ''-enable_eager'', ''false'',
           ''-distribution_strategy'', ''default'', ''-model_dir'', ''keras_imagenet_graph_2_gpu''])"

definition test_end_to_end_graph_xla_2_gpu :: "'w keras_env \<Rightarrow> ('w keras_test, unit) action" where
  "test_end_to_end_graph_xla_2_gpu env =
     and_then (skip_unless_gpus env 2)
       (\<lambda>_. run_synthetic_with env
          [''-num_gpus'', ''2'', ''-enable_eager'', ''false'', ''-enable_xla'', ''true'',
           ''-distribution_strategy'', ''default'',
           ''-model_dir'', ''keras_imagenet_graph_xla_2_gpu''])"

text \<open>The calls a step makes on the way to the guard: none of them counts GPUs or runs the model.\<close>

fun before_guard :: "keras_event \<Rightarrow> bool" where
  "before_guard GetConfigProtoV1 = True"
| "before_guard (EnableEagerExecution config) = True"
| "before_guard e = False"

fun is_run_synthetic :: "keras_event \<Rightarrow> bool" where
  "is_run_synthetic (RunSynthetic tmp_root extra_flags) = True"
| "is_run_synthetic e = False"

fun is_num_gpus :: "keras_event \<Rightarrow> bool" where
  "is_num_gpus (NumGpus k) = True"
| "is_num_gpus e = False"

text \<open>
  A concrete world for evaluation: the number of temporary directories made so far and the
  directories that exist. \<open>mkdtemp\<close> makes \<open>tmp0\<close>, \<open>tmp1\<close>, ... under its \<open>dir\<close>,
  \<open>rmtree\<close> removes the directory it is given, and \<open>run_synthetic\<close> needs its
  \<open>tmp_root\<close> to exist.
\<close>

definition demo_temp_name :: "nat \<Rightarrow> string" where
  "demo_temp_name k = ''tmp'' @ replicate k CHR ''x''"

definition demo_keras_env :: "int \<Rightarrow> (nat \<times> string list) keras_env" where
  "demo_keras_env gpus =
     \<lparr> googletest_GetTempDir = ''/tmp/test'',
       mkdtemp = (\<lambda>dir (k, ds).
          (Inr (os_path_join dir (demo_temp_name k)),
           (Suc k, os_path_join dir (demo_temp_name k) # ds))),
       rmtree = (\<lambda>path (k, ds).
          if path \<in> set ds then (Inr (), (k, removeAll path ds))
          else (Inl (NotFoundError path), (k, ds))),
       super_tearDown = (\<lambda>w. (Inr (), w)),
       get_config_proto_v1 = (\<lambda>w. (Inr ''config'', w)),
       enable_eager_execution = (\<lambda>config w. (Inr (), w)),
       context_num_gpus = (\<lambda>w. gpus),
       run_synthetic = (\<lambda>tmp_root extra_flags (k, ds).
          if tmp_root \<in> set ds then (Inr (), (k, ds))
          else (Inl (NotFoundError tmp_root), (k, ds))) \<rparr>"

definition demo_keras_test :: "(nat \<times> string list) keras_test" where
  "demo_keras_test = \<lparr> tempdir = None, outside = (0, []), calls = [] \<rparr>"

section \<open>Properties of official/bert/run_pretraining.py\<close>

text \<open>
  C2, as stated: for every distribution strategy, a batch size the replica count does not
  divide makes \<open>get_pretrain_input_data\<close> raise. It fails for a strategy that is not a
  \<open>TPUStrategy\<close>: with a mirrored strategy of two replicas and a batch size of three the
  function returns the dataset built with batch size three.
\<close>

theorem get_pretrain_input_data_mirrored_counterexample:
  "(3::int) mod num_replicas_in_sync mirrored2 \<noteq> 0 \<and>
   get_pretrain_input_data demo_input_env (Some ''a,b'') 128 20 3 mirrored2
     = Inr (Dataset ([''a'', ''b''], 3))"
  by (simp add: get_pretrain_input_data_def dataset_fn_def demo_input_env_def mirrored2_def)

text \<open>
  C2, amended: for every \<open>TPUStrategy\<close> and every training batch size, whatever the
  environment and the other arguments, a batch size that the strategy's number of replicas
  in sync does not divide makes \<open>get_pretrain_input_data\<close> raise instead of returning
  input data: the \<open>ValueError\<close> of the source, or the \<open>ZeroDivisionError\<close> of
  \<open>%\<close> when the replica count is zero. The error is not handled: the partial application
  \<open>train_input_fn\<close> that \<open>run_customized_training\<close> hands to the training loop raises
  the same error when it is called.
\<close>

theorem get_pretrain_input_data_tpu_indivisible:
  assumes "strategy_class strat = TPUStrategy"
    and "\<not> num_replicas_in_sync strat dvd batch_size"
  shows "get_pretrain_input_data env pattern seq_length max_predictions batch_size strat =
           Inl (if num_replicas_in_sync strat = 0 then ZeroDivisionError
                else ValueError ''Batch size must be divisible by number of replicas : {}''
                       [IntArg (num_replicas_in_sync strat)]) \<and>
         apply_train_input_fn env
             (TrainInputFn pattern seq_length max_predictions batch_size strat) =
           Inl (if num_replicas_in_sync strat = 0 then ZeroDivisionError
                else ValueError ''Batch size must be divisible by number of replicas : {}''
                       [IntArg (num_replicas_in_sync strat)])"
  using assms by (simp add: get_pretrain_input_data_def dvd_eq_mod_eq_0)

theorem get_pretrain_input_data_tpu_indivisible_witness:
  "strategy_class tpu8 = TPUStrategy \<and> \<not> num_replicas_in_sync tpu8 dvd (12::int) \<and>
   get_pretrain_input_data demo_input_env (Some ''a,b'') 128 20 12 tpu8 =
     Inl (ValueError ''Batch size must be divisible by number of replicas : {}'' [IntArg 8]) \<and>
   apply_train_input_fn demo_input_env (TrainInputFn (Some ''a,b'') 128 20 12 tpu8) =
     Inl (ValueError ''Batch size must be divisible by number of replicas : {}'' [IntArg 8])"
proof -
  have c: "strategy_class tpu8 = TPUStrategy"
    by (simp add: tpu8_def)
  have d: "\<not> num_replicas_in_sync tpu8 dvd (12::int)"
    by (simp add: tpu8_def)
  show ?thesis
    using c d get_pretrain_input_data_tpu_indivisible [OF c d, of demo_input_env "Some ''a,b''" 128 20]
    by (simp add: tpu8_def)
qed

subsection \<open>The per-replica batch size\<close>

text \<open>
  Where the replica count divides the batch size and the quotient is below \<open>2 ^ 53\<close> in
  size, true division followed by \<open>int\<close> gives the exact quotient.
\<close>

lemma bit_length_le: "n < 2 ^ k \<Longrightarrow> bit_length n \<le> k"
proof (induction k arbitrary: n)
  case 0
  then show ?case by (simp add: bit_length.simps)
next
  case (Suc k)
  show ?case
  proof (cases "n \<le> 0")
    case True
    then show ?thesis by (simp add: bit_length.simps)
  next
    case False
    from Suc.prems have "n div 2 < 2 ^ k" by simp
    from Suc.IH [OF this] False show ?thesis
      by (subst bit_length.simps) simp
  qed
qed

lemma round_half_even_of_int: "round_half_even (of_int m) = m"
  by (simp add: round_half_even_def)

lemma scale2_int:
  assumes "0 \<le> k"
  shows "scale2 (of_int (round_half_even (scale2 (of_int m) k))) (- k) = of_int m"
proof -
  have "scale2 (of_int m) k = of_int (m * 2 ^ nat k)"
    using assms by (simp add: scale2_def)
  then have "round_half_even (scale2 (of_int m) k) = m * 2 ^ nat k"
    by (simp only: round_half_even_of_int)
  then show ?thesis
    using assms by (simp add: scale2_def)
qed

lemma per_replica_batch_size_exact:
  assumes "replicas \<noteq> 0" and "replicas dvd batch_size"
    and "\<bar>batch_size div replicas\<bar> < 2 ^ 53"
  shows "per_replica_batch_size batch_size replicas = Inr (batch_size div replicas)"
proof -
  define d where "d = batch_size div replicas"
  define a where "a = \<bar>d\<bar>"
  from assms(2) have bs: "batch_size = d * replicas"
    by (simp add: d_def)
  have q: "\<bar>of_int batch_size / of_int replicas\<bar> = (of_int a :: rat)"
    using assms(1) by (simp add: bs a_def)
  have sg: "sgn batch_size * sgn replicas * a = d"
    using assms(1) by (simp add: bs a_def sgn_mult abs_sgn mult.commute mult.left_commute)
  show ?thesis
  proof (cases "a = 0")
    case True
    with q sg show ?thesis
      using assms(1) by (simp add: per_replica_batch_size_def d_def [symmetric])
  next
    case False
    then have "1 \<le> a"
      by (simp add: a_def)
    then have ge: "\<not> (of_int a :: rat) < 1 / 2" "\<not> (of_int a :: rat) < 1"
      by (simp_all add: not_less)
    from assms(3) have a53: "a < 2 ^ 53"
      by (simp add: d_def a_def)
    from bit_length_le [OF this]
    have e: "0 \<le> - (int (bit_length a) - 1 - 52)"
      by simp
    have "(of_int a :: rat) < of_int (2 ^ 53)"
      using a53 by (simp only: of_int_less_iff)
    also have "\<dots> \<le> 2 ^ 1024" by simp
    finally have lt: "\<not> (2 ^ 1024 \<le> (of_int a :: rat))" by simp
    show ?thesis
      unfolding per_replica_batch_size_def Let_def q
      using assms(1) ge lt sg scale2_int [OF e, of a]
      by (simp add: d_def [symmetric])
  qed
qed

lemma get_pretrain_input_data_tpu_divisible:
  assumes "strategy_class strat = TPUStrategy" and "num_replicas_in_sync strat \<noteq> 0"
    and "num_replicas_in_sync strat dvd batch_size"
    and "\<bar>batch_size div num_replicas_in_sync strat\<bar> < 2 ^ 53"
  shows "get_pretrain_input_data env pattern seq_length max_predictions batch_size strat =
           Inr (DatasetFn pattern seq_length max_predictions
                  (batch_size div num_replicas_in_sync strat))"
  using assms per_replica_batch_size_exact [OF assms(2) assms(3) assms(4)]
  by (simp add: get_pretrain_input_data_def dvd_eq_mod_eq_0)

lemmas action_defs = and_then_def returns_def raise_def call_def log_event_def new_events_def

lemmas main_defs = main_def select_strategy_def default_model_dir_def run_bert_pretrain_def
  run_customized_training_def

lemmas demo_pretrain_defs = demo_pretrain_env_def demo_pretrain_state_def demo_flags_def
  startswith_def

subsection \<open>Stepping through actions\<close>

lemma fst_call: "fst (call e r s) = r"
  by (cases r) (simp_all add: action_defs)

lemma snd_call: "snd (call e r s) = s\<lparr>trace := trace s @ [e]\<rparr>"
  by (cases r) (simp_all add: action_defs)

lemma call_eq: "call e r s = (r, s\<lparr>trace := trace s @ [e]\<rparr>)"
  by (cases r) (simp_all add: action_defs)

lemma and_then_Inl: "m s = (Inl e, s') \<Longrightarrow> and_then m f s = (Inl e, s')"
  by (simp add: and_then_def)

lemma and_then_Inr: "m s = (Inr x, s') \<Longrightarrow> and_then m f s = f x s'"
  by (simp add: and_then_def)

lemma log_event_eq: "log_event e s = (Inr (), s\<lparr>trace := trace s @ [e]\<rparr>)"
  by (simp add: log_event_def)

subsection \<open>The strategy selection of main\<close>

lemma select_unsupported:
  "strategy_type (FLAGS s) \<noteq> ''mirror'' \<Longrightarrow> strategy_type (FLAGS s) \<noteq> ''tpu'' \<Longrightarrow>
   select_strategy env s = (Inl (ValueError ''The distribution strategy type is not supported: %s''
                 [StrArg (strategy_type (FLAGS s))]), s)"
  by (simp add: select_strategy_def raise_def)

lemma default_model_dir_eq:
  "default_model_dir s = (Inr (), s\<lparr>FLAGS := (FLAGS s)\<lparr>model_dir :=
      (if model_dir (FLAGS s) = None \<or> model_dir (FLAGS s) = Some [] then Some ''/tmp/bert20/'' else model_dir (FLAGS s))\<rparr>\<rparr>)"
  by (simp add: default_model_dir_def)

lemma main_unsupported:
  assumes "startswith (tf_version env) ''2.''"
   and "strategy_type (FLAGS s) \<noteq> ''mirror''" "strategy_type (FLAGS s) \<noteq> ''tpu''"
  shows "fst (main env s) = Inl (ValueError ''The distribution strategy type is not supported: %s''
                 [StrArg (strategy_type (FLAGS s))]) \<and> new_events (main env) s = []"
  using assms by (simp add: main_def default_model_dir_eq select_unsupported and_then_def new_events_def)

lemma run_bert_pretrain_events:
  "\<exists>evs. trace (snd (run_bert_pretrain env (Some st) s)) = trace s @ evs \<and>
     (\<forall>a. RunCustomizedTrainingLoop a \<in> set evs \<longrightarrow> loop_strategy a = st)"
proof (cases "bert_config_from_json_file env (bert_config_file (FLAGS s))")
  case (Inl e)
  then show ?thesis
    by (simp add: run_bert_pretrain_def and_then_def call_eq)
next
  case (Inr c)
  then show ?thesis
    by (simp add: run_bert_pretrain_def and_then_def call_eq log_event_eq
        run_customized_training_def Let_def)
qed

lemma main_mirror:
  assumes "startswith (tf_version env) ''2.''"
   and m: "strategy_type (FLAGS s) = ''mirror''"
  shows "take 1 (new_events (main env) s) = [NewMirroredStrategy] \<and>
    (\<forall>a. RunCustomizedTrainingLoop a \<in> set (new_events (main env) s) \<longrightarrow> strategy_class (loop_strategy a) = MirroredStrategy)"
proof (cases "new_mirrored_strategy env")
  case (Inl e)
  with assms show ?thesis
    by (simp add: main_def default_model_dir_eq select_strategy_def and_then_def call_eq new_events_def)
next
  case (Inr n)
  define st where "st = \<lparr>strategy_class = MirroredStrategy, num_replicas_in_sync = n\<rparr>"
  define s1 where "s1 = s\<lparr>FLAGS := (FLAGS s)\<lparr>model_dir :=
      (if model_dir (FLAGS s) = None \<or> model_dir (FLAGS s) = Some [] then Some ''/tmp/bert20/'' else model_dir (FLAGS s))\<rparr>,
      trace := trace s @ [NewMirroredStrategy, Print ''***** Number of cores used : '' [IntArg n]]\<rparr>"
  have eq: "main env s = run_bert_pretrain env (Some st) s1"
    using assms Inr
    by (simp add: main_def default_model_dir_eq select_strategy_def and_then_def call_eq
        returns_def log_event_eq st_def s1_def)
  obtain evs where evs: "trace (snd (run_bert_pretrain env (Some st) s1)) = trace s1 @ evs"
    and loop: "\<forall>a. RunCustomizedTrainingLoop a \<in> set evs \<longrightarrow> loop_strategy a = st"
    using run_bert_pretrain_events by blast
  have tr: "trace s1 =
      trace s @ [NewMirroredStrategy, Print ''***** Number of cores used : '' [IntArg n]]"
    by (simp add: s1_def)
  have ne: "new_events (main env) s =
      NewMirroredStrategy # Print ''***** Number of cores used : '' [IntArg n] # evs"
    by (simp add: new_events_def eq evs tr)
  show ?thesis
    using loop by (auto simp add: ne st_def)
qed

lemma main_tpu:
  assumes "startswith (tf_version env) ''2.''"
   and t: "strategy_type (FLAGS s) = ''tpu''"
  shows "take 1 (new_events (main env) s) = [TpuInitialize (tpu (FLAGS s))] \<and>
    (\<forall>r. tpu_initialize env (tpu (FLAGS s)) = Inr r \<longrightarrow> take 2 (new_events (main env) s) = [TpuInitialize (tpu (FLAGS s)), NewTPUStrategy r]) \<and>
    (\<forall>a. RunCustomizedTrainingLoop a \<in> set (new_events (main env) s) \<longrightarrow> strategy_class (loop_strategy a) = TPUStrategy)"
proof (cases "tpu_initialize env (tpu (FLAGS s))")
  case (Inl e)
  with assms show ?thesis
    by (simp add: main_def default_model_dir_eq select_strategy_def and_then_def call_eq new_events_def)
next
  case r: (Inr r)
  show ?thesis
  proof (cases "new_tpu_strategy env r")
    case (Inl e)
    with assms r show ?thesis
      by (simp add: main_def default_model_dir_eq select_strategy_def and_then_def call_eq new_events_def)
  next
    case (Inr n)
    define st where "st = \<lparr>strategy_class = TPUStrategy, num_replicas_in_sync = n\<rparr>"
    define s1 where "s1 = s\<lparr>FLAGS := (FLAGS s)\<lparr>model_dir :=
      (if model_dir (FLAGS s) = None \<or> model_dir (FLAGS s) = Some [] then Some ''/tmp/bert20/'' else model_dir (FLAGS s))\<rparr>,
      trace := trace s @ [TpuInitialize (tpu (FLAGS s)), NewTPUStrategy r,
         Print ''***** Number of cores used : '' [IntArg n]]\<rparr>"
    have eq: "main env s = run_bert_pretrain env (Some st) s1"
      using assms r Inr
      by (simp add: main_def default_model_dir_eq select_strategy_def and_then_def call_eq
          returns_def log_event_eq st_def s1_def)
    obtain evs where evs: "trace (snd (run_bert_pretrain env (Some st) s1)) = trace s1 @ evs"
      and loop: "\<forall>a. RunCustomizedTrainingLoop a \<in> set evs \<longrightarrow> loop_strategy a = st"
      using run_bert_pretrain_events by blast
    have tr: "trace s1 =
        trace s @ [TpuInitialize (tpu (FLAGS s)), NewTPUStrategy r,
          Print ''***** Number of cores used : '' [IntArg n]]"
      by (simp add: s1_def)
    have ne: "new_events (main env) s =
        TpuInitialize (tpu (FLAGS s)) # NewTPUStrategy r #
        Print ''***** Number of cores used : '' [IntArg n] # evs"
      by (simp add: new_events_def eq evs tr)
    show ?thesis
      using loop r by (auto simp add: ne st_def)
  qed
qed


text \<open>
  The script is written for TensorFlow 2.x, which \<open>main\<close> asserts before anything else:
  under any other version it stops there, with no call made.
\<close>

lemma main_asserts_version:
  assumes "\<not> startswith (tf_version env) ''2.''"
  shows "main env s = (Inl AssertionError, s)"
  using assms by (simp add: main_def raise_def)

text \<open>
  C3: under TensorFlow 2.x (the version the script is written for and asserts), every
  \<open>strategy_type\<close> other than \<open>mirror\<close> and \<open>tpu\<close> makes \<open>main\<close> raise the
  \<open>ValueError\<close> \<open>The distribution strategy type is not supported\<close> with no external
  call made at all, so before any training is attempted. For \<open>mirror\<close> the first call
  is the construction of a \<open>MirroredStrategy\<close> and any training loop entered runs under
  a strategy of that class; for \<open>tpu\<close> the first call initialises the TPU system at
  \<open>FLAGS.tpu\<close>, the next one builds a \<open>TPUStrategy\<close> from the cluster resolver
  returned, and any training loop entered runs under a strategy of that class.
\<close>

theorem main_strategy_type:
  assumes "startswith (tf_version env) ''2.''"
  shows
    "(strategy_type (FLAGS s) \<noteq> ''mirror'' \<and> strategy_type (FLAGS s) \<noteq> ''tpu'' \<longrightarrow>
        fst (main env s) =
          Inl (ValueError ''The distribution strategy type is not supported: %s''
                 [StrArg (strategy_type (FLAGS s))]) \<and>
        new_events (main env) s = []) \<and>
     (strategy_type (FLAGS s) = ''mirror'' \<longrightarrow>
        take 1 (new_events (main env) s) = [NewMirroredStrategy] \<and>
        (\<forall>a. RunCustomizedTrainingLoop a \<in> set (new_events (main env) s) \<longrightarrow>
             strategy_class (loop_strategy a) = MirroredStrategy)) \<and>
     (strategy_type (FLAGS s) = ''tpu'' \<longrightarrow>
        take 1 (new_events (main env) s) = [TpuInitialize (tpu (FLAGS s))] \<and>
        (\<forall>r. tpu_initialize env (tpu (FLAGS s)) = Inr r \<longrightarrow>
             take 2 (new_events (main env) s) =
               [TpuInitialize (tpu (FLAGS s)), NewTPUStrategy r]) \<and>
        (\<forall>a. RunCustomizedTrainingLoop a \<in> set (new_events (main env) s) \<longrightarrow>
             strategy_class (loop_strategy a) = TPUStrategy))"
  using main_unsupported [OF assms, of s] main_mirror [OF assms, of s] main_tpu [OF assms, of s]
  by blast

theorem main_strategy_type_witness:
  "startswith (tf_version (demo_pretrain_env ''2.0.0'')) ''2.'' \<and>
   fst (main (demo_pretrain_env ''2.0.0'') (demo_pretrain_state ''horovod'')) =
     Inl (ValueError ''The distribution strategy type is not supported: %s'' [StrArg ''horovod'']) \<and>
   new_events (main (demo_pretrain_env ''2.0.0'')) (demo_pretrain_state ''horovod'') = [] \<and>
   take 1 (new_events (main (demo_pretrain_env ''2.0.0'')) (demo_pretrain_state ''mirror'')) =
     [NewMirroredStrategy] \<and>
   take 2 (new_events (main (demo_pretrain_env ''2.0.0'')) (demo_pretrain_state ''tpu'')) =
     [TpuInitialize ''10.0.0.2'', NewTPUStrategy ''grpc://10.0.0.2'']"
proof -
  have v: "startswith (tf_version (demo_pretrain_env ''2.0.0'')) ''2.''"
    by (simp add: demo_pretrain_defs)
  show ?thesis
    using v
      main_strategy_type [OF v, of "demo_pretrain_state ''horovod''"]
      main_strategy_type [OF v, of "demo_pretrain_state ''mirror''"]
      main_strategy_type [OF v, of "demo_pretrain_state ''tpu''"]
    by (simp add: demo_pretrain_defs)
qed

section \<open>Properties of official/bert/benchmark/bert_squad_benchmark.py\<close>

subsection \<open>Steps of the benchmark\<close>

lemma and_then_Inr_iff:
  "and_then m f s = (Inr y, t) \<longleftrightarrow> (\<exists>x s'. m s = (Inr x, s') \<and> f x s' = (Inr y, t))"
  by (auto simp add: and_then_def split: prod.splits sum.splits)

lemma of_result_eq: "of_result r s = (r, s)"
  by (cases r) (simp_all add: of_result_def raise_def returns_def)

lemma steps_and_then:
  assumes "steps env m s"
    and "\<And>x s'. m s = (Inr x, s') \<Longrightarrow> steps env (f x) s'"
  shows "steps env (and_then m f) s"
proof (cases "m s")
  case (Pair r s')
  show ?thesis
  proof (cases r)
    case (Inl e)
    with Pair assms(1) show ?thesis
      by (simp add: steps_def and_then_def)
  next
    case (Inr x)
    with Pair have ms: "m s = (Inr x, s')" by simp
    from assms(1) ms obtain evs where
      a: "num_gpus s' = num_gpus s" "FLAGS s' = FLAGS s" "trace s' = trace s @ evs"
        "list_all (event_ok env (num_gpus s) (FLAGS s)) evs"
      by (auto simp add: steps_def)
    from assms(2)[OF ms] a obtain evs' where
      b: "num_gpus (snd (f x s')) = num_gpus s" "FLAGS (snd (f x s')) = FLAGS s"
        "trace (snd (f x s')) = trace s @ evs @ evs'"
        "list_all (event_ok env (num_gpus s) (FLAGS s)) evs'"
      by (auto simp add: steps_def)
    have "and_then m f s = f x s'"
      using ms by (simp add: and_then_def)
    with a b show ?thesis
      by (auto simp add: steps_def)
  qed
qed

lemma steps_of_result: "steps env (of_result r) s"
  by (simp add: steps_def of_result_eq)

lemma steps_raise: "steps env (raise e) s"
  by (simp add: steps_def raise_def)

lemma steps_time_time: "steps env time_time s"
  by (simp add: steps_def time_time_def)

lemma steps_gfile_read: "steps env (gfile_read env path) s"
  by (simp add: steps_def gfile_read_def split: option.splits)

lemma steps_flagsaver: "steps env m s \<Longrightarrow> steps env (flagsaver m) s"
  by (auto simp add: steps_def flagsaver_def split: prod.splits)

lemma steps_read_training_summary: "steps env (read_training_summary_from_file env) s"
proof (cases "model_dir (FLAGS s)")
  case None
  then show ?thesis
    by (simp add: steps_def read_training_summary_from_file_def raise_def)
next
  case (Some dir)
  have "steps env (and_then (gfile_read env (Some (os_path_join dir ''training_summary.txt'')))
            (\<lambda>text. of_result (json_loads env text))) s"
    by (intro steps_and_then steps_gfile_read steps_of_result)
  with Some show ?thesis
    by (simp add: steps_def read_training_summary_from_file_def)
qed

lemma steps_read_predictions: "steps env (read_predictions_from_file env) s"
proof (cases "model_dir (FLAGS s)")
  case None
  then show ?thesis
    by (simp add: steps_def read_predictions_from_file_def raise_def)
next
  case (Some dir)
  have "steps env (and_then (gfile_read env (Some (os_path_join dir ''predictions.json'')))
            (\<lambda>text. of_result (json_loads env text))) s"
    by (intro steps_and_then steps_gfile_read steps_of_result)
  with Some show ?thesis
    by (simp add: steps_def read_predictions_from_file_def)
qed

lemma steps_read_input_meta_data: "steps env (read_input_meta_data_from_file env) s"
proof -
  have "steps env (and_then (gfile_read env (input_meta_data_path (FLAGS s)))
            (\<lambda>text. of_result (json_loads env text))) s"
    by (intro steps_and_then steps_gfile_read steps_of_result)
  then show ?thesis
    by (simp add: steps_def read_input_meta_data_from_file_def)
qed

lemma steps_read_predictions_dataset: "steps env (read_predictions_dataset_from_file env) s"
  unfolding read_predictions_dataset_from_file_def
  by (intro steps_and_then steps_gfile_read steps_of_result)

lemma steps_get_distribution_strategy: "steps env (get_distribution_strategy_method env) s"
  by (simp add: steps_def get_distribution_strategy_method_def call_eq)

lemma get_distribution_strategy_Inr:
  "get_distribution_strategy_method env s = (Inr strat, s') \<Longrightarrow>
     get_distribution_strategy env ''mirrored'' (num_gpus s) = Inr strat \<and>
     num_gpus s' = num_gpus s \<and> FLAGS s' = FLAGS s \<and> eval_metrics s' = eval_metrics s \<and>
     world s' = world s \<and>
     trace s' = trace s @ [GetDistributionStrategy ''mirrored'' (num_gpus s)]"
  by (auto simp add: get_distribution_strategy_method_def call_eq)

lemma steps_inv:
  "steps env m s \<Longrightarrow> m s = (r, s') \<Longrightarrow> num_gpus s' = num_gpus s \<and> FLAGS s' = FLAGS s"
  by (simp add: steps_def)

lemma steps_train_call:
  assumes "get_distribution_strategy env ''mirrored'' (num_gpus s) = Inr strat"
  shows "steps env (\<lambda>s. framework_call (TrainSquad strat meta (FLAGS s)) f s) s"
  using assms by (simp add: steps_def framework_call_def split: prod.splits)

lemma steps_predict_call:
  assumes "get_distribution_strategy env ''mirrored'' (num_gpus s) = Inr strat"
  shows "steps env (\<lambda>s. framework_call (PredictSquad strat meta (FLAGS s)) f s) s"
  using assms by (simp add: steps_def framework_call_def split: prod.splits)

lemma steps_call_evaluate: "steps env (call (Evaluate dataset predictions) r) s"
  by (simp add: steps_def call_eq)

lemma steps_store_f1: "steps env (\<lambda>s. (Inr (), s\<lparr>eval_metrics := Some f1\<rparr>)) s"
  by (simp add: steps_def)

lemma steps_train_squad: "steps env (train_squad env) s"
  unfolding train_squad_def
proof (intro steps_flagsaver steps_and_then steps_read_input_meta_data
    steps_get_distribution_strategy)
  fix meta s1 strat s2
  assume a: "read_input_meta_data_from_file env s = (Inr meta, s1)"
    and b: "get_distribution_strategy_method env s1 = (Inr strat, s2)"
  from get_distribution_strategy_Inr [OF b]
  have "get_distribution_strategy env ''mirrored'' (num_gpus s2) = Inr strat"
    by simp
  then show "steps env (\<lambda>s. framework_call (TrainSquad strat meta (FLAGS s))
       (run_squad_train_squad env strat meta) s) s2"
    by (rule steps_train_call)
qed

lemma steps_evaluate_squad: "steps env (evaluate_squad env) s"
  unfolding evaluate_squad_def
proof (intro steps_flagsaver steps_and_then steps_read_input_meta_data
    steps_get_distribution_strategy steps_read_predictions_dataset steps_read_predictions
    steps_call_evaluate steps_of_result steps_store_f1)
  fix meta s1 strat s2
  assume a: "read_input_meta_data_from_file env s = (Inr meta, s1)"
    and b: "get_distribution_strategy_method env s1 = (Inr strat, s2)"
  from get_distribution_strategy_Inr [OF b]
  have "get_distribution_strategy env ''mirrored'' (num_gpus s2) = Inr strat"
    by simp
  then show "steps env (\<lambda>s. framework_call (PredictSquad strat meta (FLAGS s))
       (run_squad_predict_squad env strat meta) s) s2"
    by (rule steps_predict_call)
qed

lemma steps_store_eval_metrics: "steps env (store_eval_metrics summary) s"
  by (simp add: steps_def store_eval_metrics_def raise_def of_result_eq split: option.splits)

lemma gfile_read_Inr:
  "gfile_read env path s = (Inr text, s') \<Longrightarrow>
     \<exists>p. path = Some p \<and> file_text (world s) p = Some text \<and>
       s' = s\<lparr>trace := trace s @ [GFileRead p (Some text)],
              world := (world s)\<lparr>clock := clock (world s) + read_latency env p\<rparr>\<rparr>"
  by (auto simp add: gfile_read_def split: option.splits)

lemma read_training_summary_Inr:
  assumes "read_training_summary_from_file env s = (Inr summary, s')"
  shows "\<exists>dir text. model_dir (FLAGS s) = Some dir \<and>
      file_text (world s) (os_path_join dir ''training_summary.txt'') = Some text \<and>
      json_loads env text = Inr summary \<and>
      trace s' = trace s @ [GFileRead (os_path_join dir ''training_summary.txt'') (Some text)] \<and>
      eval_metrics s' = eval_metrics s"
  using assms
  by (auto simp add: read_training_summary_from_file_def raise_def and_then_Inr_iff of_result_eq
      split: option.splits dest!: gfile_read_Inr)

lemma read_predictions_Inr:
  assumes "read_predictions_from_file env s = (Inr predictions, s')"
  shows "\<exists>dir text. model_dir (FLAGS s) = Some dir \<and>
      file_text (world s) (os_path_join dir ''predictions.json'') = Some text \<and>
      json_loads env text = Inr predictions \<and>
      trace s' = trace s @ [GFileRead (os_path_join dir ''predictions.json'') (Some text)]"
  using assms
  by (auto simp add: read_predictions_from_file_def raise_def and_then_Inr_iff of_result_eq
      split: option.splits dest!: gfile_read_Inr)

lemma read_input_meta_data_Inr:
  assumes "read_input_meta_data_from_file env s = (Inr meta, s')"
  shows "\<exists>p text. input_meta_data_path (FLAGS s) = Some p \<and>
      file_text (world s) p = Some text \<and> json_loads env text = Inr meta \<and>
      trace s' = trace s @ [GFileRead p (Some text)] \<and> eval_metrics s' = eval_metrics s"
  using assms
  by (auto simp add: read_input_meta_data_from_file_def and_then_Inr_iff of_result_eq
      dest!: gfile_read_Inr)

lemma read_predictions_dataset_Inr:
  assumes "read_predictions_dataset_from_file env s = (Inr dataset, s')"
  shows "\<exists>text dataset_json. file_text (world s) SQUAD_PREDICT_FILE = Some text \<and>
      json_loads env text = Inr dataset_json \<and> getitem dataset_json ''data'' = Inr dataset \<and>
      trace s' = trace s @ [GFileRead SQUAD_PREDICT_FILE (Some text)]"
  using assms
  by (auto simp add: read_predictions_dataset_from_file_def and_then_Inr_iff of_result_eq
      dest!: gfile_read_Inr)

lemma flagsaver_Inr:
  "flagsaver m s = (Inr x, s') \<Longrightarrow> \<exists>t. m s = (Inr x, t) \<and> s' = t\<lparr>FLAGS := FLAGS s\<rparr>"
  by (auto simp add: flagsaver_def split: prod.splits)

lemma framework_call_Inr:
  "framework_call e f s = (Inr x, s') \<Longrightarrow>
     trace s' = trace s @ [e] \<and> eval_metrics s' = eval_metrics s \<and>
     world s' = snd (f (FLAGS s) (world s)) \<and> fst (f (FLAGS s) (world s)) = Inr x"
  by (auto simp add: framework_call_def split: prod.splits)

lemma train_squad_Inr:
  assumes "train_squad env s = (Inr u, s')"
  shows "\<exists>p text meta strat. input_meta_data_path (FLAGS s) = Some p \<and>
      json_loads env text = Inr meta \<and>
      get_distribution_strategy env ''mirrored'' (num_gpus s) = Inr strat \<and>
      trace s' = trace s @ [GFileRead p (Some text),
        GetDistributionStrategy ''mirrored'' (num_gpus s), TrainSquad strat meta (FLAGS s)] \<and>
      eval_metrics s' = eval_metrics s"
proof -
  from assms obtain t meta s1 strat s2 where
    a: "read_input_meta_data_from_file env s = (Inr meta, s1)"
    and b: "get_distribution_strategy_method env s1 = (Inr strat, s2)"
    and c: "framework_call (TrainSquad strat meta (FLAGS s2))
              (run_squad_train_squad env strat meta) s2 = (Inr u, t)"
    and d: "s' = t\<lparr>FLAGS := FLAGS s\<rparr>"
    unfolding train_squad_def
    by (auto simp add: and_then_Inr_iff dest!: flagsaver_Inr)
  from steps_inv [OF steps_read_input_meta_data a]
  have f1: "num_gpus s1 = num_gpus s" "FLAGS s1 = FLAGS s" by simp_all
  from read_input_meta_data_Inr [OF a] get_distribution_strategy_Inr [OF b]
    framework_call_Inr [OF c] d f1
  show ?thesis by auto
qed

lemma call_Inr:
  "call e r s = (Inr x, s') \<Longrightarrow> r = Inr x \<and> s' = s\<lparr>trace := trace s @ [e]\<rparr>"
  by (simp add: call_eq)

lemma evaluate_squad_Inr:
  assumes "evaluate_squad env s = (Inr u, s')"
  shows "\<exists>p text meta strat dtext dataset_json dataset dir ptext predictions metrics f1.
      input_meta_data_path (FLAGS s) = Some p \<and> json_loads env text = Inr meta \<and>
      get_distribution_strategy env ''mirrored'' (num_gpus s) = Inr strat \<and>
      json_loads env dtext = Inr dataset_json \<and> getitem dataset_json ''data'' = Inr dataset \<and>
      model_dir (FLAGS s) = Some dir \<and> json_loads env ptext = Inr predictions \<and>
      squad_evaluate env dataset predictions = Inr metrics \<and> getitem metrics ''f1'' = Inr f1 \<and>
      trace s' = trace s @ [GFileRead p (Some text),
        GetDistributionStrategy ''mirrored'' (num_gpus s), PredictSquad strat meta (FLAGS s),
        GFileRead SQUAD_PREDICT_FILE (Some dtext),
        GFileRead (os_path_join dir ''predictions.json'') (Some ptext),
        Evaluate dataset predictions] \<and>
      eval_metrics s' = Some f1 \<and> FLAGS s' = FLAGS s \<and> num_gpus s' = num_gpus s"
proof -
  from assms obtain t meta s1 strat s2 s3 dataset s4 predictions s5 metrics s6 f1 s7 where
    a: "read_input_meta_data_from_file env s = (Inr meta, s1)"
    and b: "get_distribution_strategy_method env s1 = (Inr strat, s2)"
    and c: "framework_call (PredictSquad strat meta (FLAGS s2))
              (run_squad_predict_squad env strat meta) s2 = (Inr (), s3)"
    and d: "read_predictions_dataset_from_file env s3 = (Inr dataset, s4)"
    and e: "read_predictions_from_file env s4 = (Inr predictions, s5)"
    and f: "call (Evaluate dataset predictions) (squad_evaluate env dataset predictions) s5
              = (Inr metrics, s6)"
    and g: "of_result (getitem metrics ''f1'') s6 = (Inr f1, s7)"
    and h: "t = s7\<lparr>eval_metrics := Some f1\<rparr>"
    and i: "s' = t\<lparr>FLAGS := FLAGS s\<rparr>"
    unfolding evaluate_squad_def
    by (auto simp add: and_then_Inr_iff dest!: flagsaver_Inr)
  from steps_inv [OF steps_read_input_meta_data a]
  have f1: "num_gpus s1 = num_gpus s" "FLAGS s1 = FLAGS s" by simp_all
  from get_distribution_strategy_Inr [OF b] f1
  have f2: "num_gpus s2 = num_gpus s" "FLAGS s2 = FLAGS s" by simp_all
  from c have f3: "num_gpus s3 = num_gpus s2" "FLAGS s3 = FLAGS s2"
    by (auto simp add: framework_call_def split: prod.splits)
  from steps_inv [OF steps_read_predictions_dataset d] f2 f3
  have f4: "num_gpus s4 = num_gpus s" "FLAGS s4 = FLAGS s" by simp_all
  from steps_inv [OF steps_read_predictions e] f4
  have f5: "num_gpus s5 = num_gpus s" "FLAGS s5 = FLAGS s" by simp_all
  from g have g': "getitem metrics ''f1'' = Inr f1" "s7 = s6"
    by (simp_all add: of_result_eq)
  from read_input_meta_data_Inr [OF a] obtain p mtext where
    A: "input_meta_data_path (FLAGS s) = Some p" "json_loads env mtext = Inr meta"
      "trace s1 = trace s @ [GFileRead p (Some mtext)]"
    by blast
  from get_distribution_strategy_Inr [OF b] f1 have
    B: "get_distribution_strategy env ''mirrored'' (num_gpus s) = Inr strat"
      "trace s2 = trace s1 @ [GetDistributionStrategy ''mirrored'' (num_gpus s)]"
    by simp_all
  from framework_call_Inr [OF c] f2 have
    C: "trace s3 = trace s2 @ [PredictSquad strat meta (FLAGS s)]"
    by simp
  from read_predictions_dataset_Inr [OF d] obtain dtext dataset_json where
    D: "json_loads env dtext = Inr dataset_json" "getitem dataset_json ''data'' = Inr dataset"
      "trace s4 = trace s3 @ [GFileRead SQUAD_PREDICT_FILE (Some dtext)]"
    by blast
  from read_predictions_Inr [OF e] f4 obtain dir ptext where
    E: "model_dir (FLAGS s) = Some dir" "json_loads env ptext = Inr predictions"
      "trace s5 = trace s4 @ [GFileRead (os_path_join dir ''predictions.json'') (Some ptext)]"
    by auto
  from call_Inr [OF f] have
    F: "squad_evaluate env dataset predictions = Inr metrics"
      "trace s6 = trace s5 @ [Evaluate dataset predictions]"
      "num_gpus s6 = num_gpus s5"
    by simp_all
  have G: "trace s' = trace s6" "eval_metrics s' = Some f1" "FLAGS s' = FLAGS s"
      "num_gpus s' = num_gpus s"
    using g' h i F(3) f5 by simp_all
  have tr: "trace s' = trace s @ [GFileRead p (Some mtext),
        GetDistributionStrategy ''mirrored'' (num_gpus s), PredictSquad strat meta (FLAGS s),
        GFileRead SQUAD_PREDICT_FILE (Some dtext),
        GFileRead (os_path_join dir ''predictions.json'') (Some ptext),
        Evaluate dataset predictions]"
    by (simp add: G(1) F(2) E(3) D(3) C B(2) A(3))
  show ?thesis
    using A(1,2) B(1) D(1,2) E(1,2) F(1) g'(1) tr G(2,3,4) by blast
qed

lemma new_events_eq: "trace (snd (m s)) = trace s @ evs \<Longrightarrow> new_events m s = evs"
  by (simp add: new_events_def)

lemma steps_events:
  assumes "steps env m s" and "m s = (r, s')"
  obtains evs where "trace s' = trace s @ evs"
    and "list_all (event_ok env (num_gpus s) (FLAGS s)) evs"
    and "num_gpus s' = num_gpus s" and "FLAGS s' = FLAGS s"
  using assms by (auto simp add: steps_def)

lemma event_ok_no_report:
  "list_all (event_ok env n fl) evs \<Longrightarrow> ReportBenchmark stats wall lo hi \<notin> set evs"
  by (auto simp add: list_all_iff)

lemma event_ok_run: "list_all (event_ok env n fl) evs \<Longrightarrow> list_all (run_event_ok env n fl) evs"
  by (auto simp add: list_all_iff run_event_ok_def)

lemma Real_run_cases:
  fixes env s
  defines "m \<equiv> BertSquadBenchmarkReal_run_and_report_benchmark env"
  shows "(list_all (event_ok env (num_gpus s) (FLAGS s)) (new_events m s)) \<or>
    (\<exists>p mtext meta strat t1 dir stext summary.
       new_events m s =
         [TimeTime (clock (world s)), GFileRead p (Some mtext),
          GetDistributionStrategy ''mirrored'' (num_gpus s), TrainSquad strat meta (FLAGS s),
          TimeTime t1, GFileRead (os_path_join dir ''training_summary.txt'') (Some stext),
          ReportBenchmark summary (t1 - clock (world s)) 0 1] \<and>
       input_meta_data_path (FLAGS s) = Some p \<and> json_loads env mtext = Inr meta \<and>
       get_distribution_strategy env ''mirrored'' (num_gpus s) = Inr strat \<and>
       model_dir (FLAGS s) = Some dir \<and> json_loads env stext = Inr summary \<and>
       fst (m s) = report_benchmark env summary (t1 - clock (world s)) 0 1)"
proof -
  define s0 where "s0 = s\<lparr>trace := trace s @ [TimeTime (clock (world s))]\<rparr>"
  have tt: "time_time s = (Inr (clock (world s)), s0)"
    by (simp add: time_time_def s0_def)
  have s0: "num_gpus s0 = num_gpus s" "FLAGS s0 = FLAGS s"
    "trace s0 = trace s @ [TimeTime (clock (world s))]"
    by (simp_all add: s0_def)
  obtain r1 s1 where tr: "train_squad env s0 = (r1, s1)"
    by (cases "train_squad env s0")
  from steps_events [OF steps_train_squad tr] s0 obtain evs1 where
    e1: "trace s1 = trace s @ TimeTime (clock (world s)) # evs1"
      "list_all (event_ok env (num_gpus s) (FLAGS s)) evs1"
      "num_gpus s1 = num_gpus s" "FLAGS s1 = FLAGS s"
    by auto
  show ?thesis
  proof (cases r1)
    case (Inl e)
    with tt tr have "m s = (Inl e, s1)"
      by (simp add: m_def BertSquadBenchmarkReal_run_and_report_benchmark_def and_then_def)
    with e1 have "new_events m s = TimeTime (clock (world s)) # evs1"
      by (simp add: new_events_def)
    with e1 show ?thesis by simp
  next
    case (Inr u)
    with tr have tr': "train_squad env s0 = (Inr u, s1)" by simp
    from train_squad_Inr [OF tr'] s0 obtain p mtext meta strat where
      t: "input_meta_data_path (FLAGS s) = Some p" "json_loads env mtext = Inr meta"
        "get_distribution_strategy env ''mirrored'' (num_gpus s) = Inr strat"
        "trace s1 = trace s @ [TimeTime (clock (world s)), GFileRead p (Some mtext),
           GetDistributionStrategy ''mirrored'' (num_gpus s), TrainSquad strat meta (FLAGS s)]"
      by auto
    define t1 where "t1 = clock (world s1)"
    define s2 where "s2 = s1\<lparr>trace := trace s1 @ [TimeTime t1]\<rparr>"
    have tt2: "time_time s1 = (Inr t1, s2)"
      by (simp add: time_time_def s2_def t1_def)
    have s2: "num_gpus s2 = num_gpus s" "FLAGS s2 = FLAGS s"
      "trace s2 = trace s1 @ [TimeTime t1]"
      using e1 by (simp_all add: s2_def)
    obtain r3 s3 where rd: "read_training_summary_from_file env s2 = (r3, s3)"
      by (cases "read_training_summary_from_file env s2")
    from steps_events [OF steps_read_training_summary rd] s2 obtain evs3 where
      e3: "trace s3 = trace s2 @ evs3"
        "list_all (event_ok env (num_gpus s) (FLAGS s)) evs3"
      by auto
    show ?thesis
    proof (cases r3)
      case (Inl e)
      with tt tr' tt2 rd have "m s = (Inl e, s3)"
        by (simp add: m_def BertSquadBenchmarkReal_run_and_report_benchmark_def and_then_def Let_def)
      with e3 s2 t have "new_events m s = [TimeTime (clock (world s)), GFileRead p (Some mtext),
           GetDistributionStrategy ''mirrored'' (num_gpus s), TrainSquad strat meta (FLAGS s),
           TimeTime t1] @ evs3"
        by (simp add: new_events_def)
      with e3 t show ?thesis by simp
    next
      case (Inr summary)
      with rd have rd': "read_training_summary_from_file env s2 = (Inr summary, s3)" by simp
      from read_training_summary_Inr [OF rd'] s2 obtain dir stext where
        r: "model_dir (FLAGS s) = Some dir" "json_loads env stext = Inr summary"
          "trace s3 = trace s2 @ [GFileRead (os_path_join dir ''training_summary.txt'') (Some stext)]"
        by auto
      define wall where "wall = t1 - clock (world s)"
      from tt tr' tt2 rd' have ms: "m s =
          call (ReportBenchmark summary wall 0 1) (report_benchmark env summary wall 0 1) s3"
        by (simp add: m_def BertSquadBenchmarkReal_run_and_report_benchmark_def and_then_def
            Let_def wall_def)
      have "new_events m s = [TimeTime (clock (world s)), GFileRead p (Some mtext),
          GetDistributionStrategy ''mirrored'' (num_gpus s), TrainSquad strat meta (FLAGS s),
          TimeTime t1, GFileRead (os_path_join dir ''training_summary.txt'') (Some stext),
          ReportBenchmark summary wall 0 1]"
        by (simp add: new_events_def ms call_eq r s2 t)
      moreover have "fst (m s) = report_benchmark env summary wall 0 1"
        by (simp add: ms call_eq)
      ultimately show ?thesis
        using t r unfolding wall_def by blast
    qed
  qed
qed

lemma store_eval_metrics_Inr:
  "store_eval_metrics summary s = (Inr stats, s') \<Longrightarrow>
     \<exists>metric. eval_metrics s = Some metric \<and> setitem summary ''eval_metrics'' metric = Inr stats \<and>
       s' = s"
  by (auto simp add: store_eval_metrics_def raise_def of_result_eq split: option.splits)

lemma store_eval_metrics_state: "store_eval_metrics summary s = (r, s') \<Longrightarrow> s' = s"
  by (auto simp add: store_eval_metrics_def raise_def of_result_eq split: option.splits)

lemma Accuracy_run_cases:
  fixes env s
  defines "m \<equiv> BertSquadAccuracy_run_and_report_benchmark env"
  shows "(list_all (event_ok env (num_gpus s) (FLAGS s)) (new_events m s)) \<or>
    (\<exists>p mtext meta strat ptext2 meta2 dtext dataset_json dataset dir ptext predictions metrics f1
        t1 stext summary stats.
       new_events m s =
         [TimeTime (clock (world s)), GFileRead p (Some mtext),
          GetDistributionStrategy ''mirrored'' (num_gpus s), TrainSquad strat meta (FLAGS s),
          GFileRead p (Some ptext2),
          GetDistributionStrategy ''mirrored'' (num_gpus s), PredictSquad strat meta2 (FLAGS s),
          GFileRead SQUAD_PREDICT_FILE (Some dtext),
          GFileRead (os_path_join dir ''predictions.json'') (Some ptext),
          Evaluate dataset predictions,
          TimeTime t1, GFileRead (os_path_join dir ''training_summary.txt'') (Some stext),
          ReportBenchmark stats (t1 - clock (world s)) 0.900 0.908] \<and>
       input_meta_data_path (FLAGS s) = Some p \<and> json_loads env mtext = Inr meta \<and>
       json_loads env ptext2 = Inr meta2 \<and>
       get_distribution_strategy env ''mirrored'' (num_gpus s) = Inr strat \<and>
       json_loads env dtext = Inr dataset_json \<and> getitem dataset_json ''data'' = Inr dataset \<and>
       json_loads env ptext = Inr predictions \<and>
       squad_evaluate env dataset predictions = Inr metrics \<and> getitem metrics ''f1'' = Inr f1 \<and>
       model_dir (FLAGS s) = Some dir \<and> json_loads env stext = Inr summary \<and>
       setitem summary ''eval_metrics'' f1 = Inr stats \<and>
       fst (m s) = report_benchmark env stats (t1 - clock (world s)) 0.900 0.908)"
proof -
  let ?P = "list_all (event_ok env (num_gpus s) (FLAGS s))"
  note run_def = m_def BertSquadAccuracy_run_and_report_benchmark_def and_then_def Let_def
  define s0 where "s0 = s\<lparr>trace := trace s @ [TimeTime (clock (world s))]\<rparr>"
  have tt: "time_time s = (Inr (clock (world s)), s0)"
    by (simp add: time_time_def s0_def)
  have s0: "num_gpus s0 = num_gpus s" "FLAGS s0 = FLAGS s"
    "trace s0 = trace s @ [TimeTime (clock (world s))]"
    by (simp_all add: s0_def)
  obtain r1 s1 where tr: "train_squad env s0 = (r1, s1)"
    by (cases "train_squad env s0")
  from steps_events [OF steps_train_squad tr] s0 obtain evs1 where
    e1: "trace s1 = trace s @ TimeTime (clock (world s)) # evs1" "?P evs1"
      "num_gpus s1 = num_gpus s" "FLAGS s1 = FLAGS s"
    by auto
  show ?thesis
  proof (cases r1)
    case (Inl e)
    with tt tr have "m s = (Inl e, s1)"
      by (simp add: run_def)
    with e1 have "new_events m s = TimeTime (clock (world s)) # evs1"
      by (simp add: new_events_def)
    with e1 show ?thesis by simp
  next
    case (Inr u)
    with tr have tr': "train_squad env s0 = (Inr (), s1)" by simp
    from train_squad_Inr [OF tr'] s0 obtain p mtext meta strat where
      t: "input_meta_data_path (FLAGS s) = Some p" "json_loads env mtext = Inr meta"
        "get_distribution_strategy env ''mirrored'' (num_gpus s) = Inr strat"
        "trace s1 = trace s @ [TimeTime (clock (world s)), GFileRead p (Some mtext),
           GetDistributionStrategy ''mirrored'' (num_gpus s), TrainSquad strat meta (FLAGS s)]"
      by auto
    obtain r2 s2 where ev: "evaluate_squad env s1 = (r2, s2)"
      by (cases "evaluate_squad env s1")
    from steps_events [OF steps_evaluate_squad ev] e1 obtain evs2 where
      e2: "trace s2 = trace s1 @ evs2" "?P evs2"
        "num_gpus s2 = num_gpus s" "FLAGS s2 = FLAGS s"
      by auto
    show ?thesis
    proof (cases r2)
      case (Inl e)
      with tt tr' ev have "m s = (Inl e, s2)"
        by (simp add: run_def)
      with e1 e2 have "new_events m s = TimeTime (clock (world s)) # evs1 @ evs2"
        by (simp add: new_events_def)
      with e1 e2 show ?thesis by simp
    next
      case (Inr u2)
      with ev have ev': "evaluate_squad env s1 = (Inr (), s2)" by simp
      from evaluate_squad_Inr [OF ev'] e1 t(1,3) obtain ptext2 meta2 dtext dataset_json dataset
          dir ptext predictions metrics f1 where
        v: "json_loads env ptext2 = Inr meta2"
          "json_loads env dtext = Inr dataset_json" "getitem dataset_json ''data'' = Inr dataset"
          "model_dir (FLAGS s) = Some dir" "json_loads env ptext = Inr predictions"
          "squad_evaluate env dataset predictions = Inr metrics"
          "getitem metrics ''f1'' = Inr f1"
          "trace s2 = trace s1 @ [GFileRead p (Some ptext2),
             GetDistributionStrategy ''mirrored'' (num_gpus s), PredictSquad strat meta2 (FLAGS s),
             GFileRead SQUAD_PREDICT_FILE (Some dtext),
             GFileRead (os_path_join dir ''predictions.json'') (Some ptext),
             Evaluate dataset predictions]"
          "eval_metrics s2 = Some f1"
        by auto
      define t1 where "t1 = clock (world s2)"
      define s3 where "s3 = s2\<lparr>trace := trace s2 @ [TimeTime t1]\<rparr>"
      have tt2: "time_time s2 = (Inr t1, s3)"
        by (simp add: time_time_def s3_def t1_def)
      have s3: "num_gpus s3 = num_gpus s" "FLAGS s3 = FLAGS s"
        "trace s3 = trace s2 @ [TimeTime t1]" "eval_metrics s3 = Some f1"
        using e2 v(9) by (simp_all add: s3_def)
      obtain r4 s4 where rd: "read_training_summary_from_file env s3 = (r4, s4)"
        by (cases "read_training_summary_from_file env s3")
      from steps_events [OF steps_read_training_summary rd] s3 obtain evs4 where
        e4: "trace s4 = trace s3 @ evs4" "?P evs4"
        by auto
      have pre: "?P (TimeTime (clock (world s)) # evs1 @ evs2 @ [TimeTime t1] @ evs4)"
        using e1 e2 e4 by simp
      have tr4: "trace s4 = trace s @ (TimeTime (clock (world s)) # evs1 @ evs2 @ [TimeTime t1] @ evs4)"
        using e1 e2 s3 e4 by simp
      show ?thesis
      proof (cases r4)
        case (Inl e)
        with tt tr' ev' tt2 rd have "m s = (Inl e, s4)"
          by (simp add: run_def)
        with tr4 have "new_events m s = TimeTime (clock (world s)) # evs1 @ evs2 @ [TimeTime t1] @ evs4"
          by (simp add: new_events_def)
        with pre show ?thesis by simp
      next
        case (Inr summary)
        with rd have rd': "read_training_summary_from_file env s3 = (Inr summary, s4)" by simp
        from read_training_summary_Inr [OF rd'] s3 v(4) obtain stext where
          r: "json_loads env stext = Inr summary"
            "trace s4 = trace s3 @ [GFileRead (os_path_join dir ''training_summary.txt'') (Some stext)]"
            "eval_metrics s4 = Some f1"
          by auto
        obtain r5 s5 where st: "store_eval_metrics summary s4 = (r5, s5)"
          by (cases "store_eval_metrics summary s4")
        from store_eval_metrics_state [OF st] have s5: "trace s5 = trace s4"
          by simp
        show ?thesis
        proof (cases r5)
          case (Inl e)
          with tt tr' ev' tt2 rd' st have "m s = (Inl e, s5)"
            by (simp add: run_def)
          with tr4 s5 have "new_events m s =
              TimeTime (clock (world s)) # evs1 @ evs2 @ [TimeTime t1] @ evs4"
            by (simp add: new_events_def)
          with pre show ?thesis by simp
        next
          case (Inr stats)
          with st have st': "store_eval_metrics summary s4 = (Inr stats, s5)" by simp
          from store_eval_metrics_Inr [OF st'] r(3) have
            w: "setitem summary ''eval_metrics'' f1 = Inr stats" "s5 = s4"
            by auto
          define wall where "wall = t1 - clock (world s)"
          from tt tr' ev' tt2 rd' st' have ms: "m s =
              call (ReportBenchmark stats wall 0.900 0.908)
                (report_benchmark env stats wall 0.900 0.908) s5"
            by (simp add: run_def wall_def)
          have "new_events m s = [TimeTime (clock (world s)), GFileRead p (Some mtext),
              GetDistributionStrategy ''mirrored'' (num_gpus s), TrainSquad strat meta (FLAGS s),
              GFileRead p (Some ptext2),
              GetDistributionStrategy ''mirrored'' (num_gpus s), PredictSquad strat meta2 (FLAGS s),
              GFileRead SQUAD_PREDICT_FILE (Some dtext),
              GFileRead (os_path_join dir ''predictions.json'') (Some ptext),
              Evaluate dataset predictions,
              TimeTime t1, GFileRead (os_path_join dir ''training_summary.txt'') (Some stext),
              ReportBenchmark stats wall 0.900 0.908]"
            by (simp add: new_events_def ms call_eq w r s3 v t)
          moreover have "fst (m s) = report_benchmark env stats wall 0.900 0.908"
            by (simp add: ms call_eq)
          ultimately show ?thesis
            using t v r w unfolding wall_def by blast
        qed
      qed
    qed
  qed
qed

subsection \<open>Whole runs\<close>

lemma keeps_steps: "steps env m s \<Longrightarrow> keeps m s"
  by (auto simp add: steps_def keeps_def)

lemma keeps_call: "keeps (call e r) s"
  by (simp add: keeps_def call_eq)

lemma keeps_time_time: "keeps time_time s"
  by (simp add: keeps_def time_time_def)

lemma keeps_and_then:
  assumes "keeps m s" and "\<And>x s'. m s = (Inr x, s') \<Longrightarrow> keeps (f x) s'"
  shows "keeps (and_then m f) s"
proof (cases "m s")
  case (Pair r s')
  show ?thesis
  proof (cases r)
    case (Inl e)
    with Pair assms(1) show ?thesis
      by (simp add: keeps_def and_then_def)
  next
    case (Inr x)
    with Pair have ms: "m s = (Inr x, s')" by simp
    from assms(2) [OF ms] assms(1) ms show ?thesis
      by (auto simp add: keeps_def and_then_def)
  qed
qed

lemma keeps_Real_run: "keeps (BertSquadBenchmarkReal_run_and_report_benchmark env) s"
  unfolding BertSquadBenchmarkReal_run_and_report_benchmark_def Let_def
  by (intro keeps_and_then keeps_time_time keeps_call keeps_steps [OF steps_train_squad]
      keeps_steps [OF steps_read_training_summary])

lemma keeps_Accuracy_run: "keeps (BertSquadAccuracy_run_and_report_benchmark env) s"
  unfolding BertSquadAccuracy_run_and_report_benchmark_def Let_def
  by (intro keeps_and_then keeps_time_time keeps_call keeps_steps [OF steps_train_squad]
      keeps_steps [OF steps_evaluate_squad] keeps_steps [OF steps_read_training_summary]
      keeps_steps [OF steps_store_eval_metrics])

lemma keeps_trace: "keeps m s \<Longrightarrow> trace (snd (m s)) = trace s @ new_events m s"
  by (auto simp add: keeps_def new_events_def)

lemma Real_run_events_ok:
  "list_all (run_event_ok env (num_gpus s) (FLAGS s))
     (new_events (BertSquadBenchmarkReal_run_and_report_benchmark env) s)"
  using Real_run_cases [of env s]
  by (auto simp add: run_event_ok_def list_all_iff)

lemma Accuracy_run_events_ok:
  "list_all (run_event_ok env (num_gpus s) (FLAGS s))
     (new_events (BertSquadAccuracy_run_and_report_benchmark env) s)"
  using Accuracy_run_cases [of env s]
  by (auto simp add: run_event_ok_def list_all_iff)

lemma Real_benchmark_cases:
  fixes run :: "(bench, unit) action" and env n dir bs
  defines "b \<equiv> and_then (BertSquadBenchmarkReal_setup env)
                 (\<lambda>_. and_then (assign_run_flags n dir bs) (\<lambda>_. run))"
  shows "(\<exists>e. b s = (Inl e, s\<lparr>trace := trace s @ [BaseSetup]\<rparr>)) \<or>
    (\<exists>sa. b s = run sa \<and> trace sa = trace s @ [BaseSetup] \<and> num_gpus sa = n \<and>
       train_batch_size (FLAGS sa) = bs \<and> model_dir (FLAGS sa) = Some dir \<and>
       input_meta_data_path (FLAGS sa) = Some SQUAD_SMALL_INPUT_META_DATA_PATH \<and>
       num_train_epochs (FLAGS sa) = 1 \<and> world sa = world s)"
proof (cases "base_setup env (FLAGS s)")
  case (Inl e)
  then have "b s = (Inl e, s\<lparr>trace := trace s @ [BaseSetup]\<rparr>)"
    by (simp add: b_def BertSquadBenchmarkReal_setup_def super_setup_def and_then_def)
  then show ?thesis by blast
next
  case (Inr fl)
  define sa where "sa = s\<lparr>trace := trace s @ [BaseSetup], num_gpus := n,
      FLAGS := fl\<lparr>train_data_path := Some SQUAD_TRAIN_DATA_PATH,
        predict_file := Some SQUAD_PREDICT_FILE, vocab_file := Some SQUAD_VOCAB_FILE,
        input_meta_data_path := Some SQUAD_SMALL_INPUT_META_DATA_PATH,
        bert_config_file := Some MODEL_CONFIG_FILE_PATH, num_train_epochs := 1,
        model_dir := Some dir, train_batch_size := bs\<rparr>\<rparr>"
  from Inr have "b s = run sa"
    by (simp add: b_def BertSquadBenchmarkReal_setup_def super_setup_def and_then_def
        assign_run_flags_def sa_def)
  moreover have "trace sa = trace s @ [BaseSetup]" "num_gpus sa = n"
    "train_batch_size (FLAGS sa) = bs" "model_dir (FLAGS sa) = Some dir"
    "input_meta_data_path (FLAGS sa) = Some SQUAD_SMALL_INPUT_META_DATA_PATH"
    "num_train_epochs (FLAGS sa) = 1" "world sa = world s"
    by (simp_all add: sa_def)
  ultimately show ?thesis by blast
qed

lemma Accuracy_benchmark_cases:
  fixes run :: "(bench, unit) action" and env n dir bs
  defines "b \<equiv> and_then (BertSquadAccuracy_setup env)
                 (\<lambda>_. and_then (assign_run_flags n dir bs) (\<lambda>_. run))"
  shows "(\<exists>e. b s = (Inl e, s\<lparr>trace := trace s @ [BaseSetup]\<rparr>)) \<or>
    (\<exists>sa. b s = run sa \<and> trace sa = trace s @ [BaseSetup] \<and> num_gpus sa = n \<and>
       train_batch_size (FLAGS sa) = bs \<and> model_dir (FLAGS sa) = Some dir \<and>
       input_meta_data_path (FLAGS sa) = Some SQUAD_FULL_INPUT_META_DATA_PATH \<and>
       init_checkpoint (FLAGS sa) = Some PRETRAINED_CHECKPOINT_PATH \<and>
       num_train_epochs (FLAGS sa) = 2 \<and> world sa = world s)"
proof (cases "base_setup env (FLAGS s)")
  case (Inl e)
  then have "b s = (Inl e, s\<lparr>trace := trace s @ [BaseSetup]\<rparr>)"
    by (simp add: b_def BertSquadAccuracy_setup_def super_setup_def and_then_def)
  then show ?thesis by blast
next
  case (Inr fl)
  define sa where "sa = s\<lparr>trace := trace s @ [BaseSetup], num_gpus := n,
      FLAGS := fl\<lparr>train_data_path := Some SQUAD_TRAIN_DATA_PATH,
        predict_file := Some SQUAD_PREDICT_FILE, vocab_file := Some SQUAD_VOCAB_FILE,
        input_meta_data_path := Some SQUAD_FULL_INPUT_META_DATA_PATH,
        bert_config_file := Some MODEL_CONFIG_FILE_PATH,
        init_checkpoint := Some PRETRAINED_CHECKPOINT_PATH, num_train_epochs := 2,
        model_dir := Some dir, train_batch_size := bs\<rparr>\<rparr>"
  from Inr have "b s = run sa"
    by (simp add: b_def BertSquadAccuracy_setup_def super_setup_def and_then_def
        assign_run_flags_def sa_def)
  moreover have "trace sa = trace s @ [BaseSetup]" "num_gpus sa = n"
    "train_batch_size (FLAGS sa) = bs" "model_dir (FLAGS sa) = Some dir"
    "input_meta_data_path (FLAGS sa) = Some SQUAD_FULL_INPUT_META_DATA_PATH"
    "init_checkpoint (FLAGS sa) = Some PRETRAINED_CHECKPOINT_PATH"
    "num_train_epochs (FLAGS sa) = 2" "world sa = world s"
    by (simp_all add: sa_def)
  ultimately show ?thesis by blast
qed

lemma benchmark_events:
  assumes "b s = run sa" and "trace sa = trace s @ [BaseSetup]" and "keeps run sa"
  shows "new_events b s = BaseSetup # new_events run sa"
    and "num_gpus (snd (b s)) = num_gpus sa" and "FLAGS (snd (b s)) = FLAGS sa"
proof -
  from assms(3) obtain evs where evs: "trace (snd (run sa)) = trace sa @ evs"
    and k: "num_gpus (snd (run sa)) = num_gpus sa" "FLAGS (snd (run sa)) = FLAGS sa"
    by (auto simp add: keeps_def)
  have "new_events run sa = evs"
    by (simp add: new_events_def evs)
  moreover have "new_events b s = BaseSetup # evs"
    by (simp add: new_events_def assms(1) evs assms(2))
  ultimately show "new_events b s = BaseSetup # new_events run sa"
    by simp
  from k show "num_gpus (snd (b s)) = num_gpus sa" "FLAGS (snd (b s)) = FLAGS sa"
    by (simp_all add: assms(1))
qed

subsection \<open>Runs that reach the report\<close>

lemma getitem_setitem: "setitem d k v = Inr d' \<Longrightarrow> getitem d' k = Inr v"
  by (auto simp add: setitem_def getitem_def update_conv' split: json.splits)

lemma Accuracy_run_report:
  assumes "ReportBenchmark stats wall lo hi \<in>
      set (new_events (BertSquadAccuracy_run_and_report_benchmark env) s)"
  shows "\<exists>p mtext meta strat ptext2 meta2 dtext dataset_json dataset dir ptext predictions metrics
        f1 t1 stext summary.
       new_events (BertSquadAccuracy_run_and_report_benchmark env) s =
         [TimeTime (clock (world s)), GFileRead p (Some mtext),
          GetDistributionStrategy ''mirrored'' (num_gpus s), TrainSquad strat meta (FLAGS s),
          GFileRead p (Some ptext2),
          GetDistributionStrategy ''mirrored'' (num_gpus s), PredictSquad strat meta2 (FLAGS s),
          GFileRead SQUAD_PREDICT_FILE (Some dtext),
          GFileRead (os_path_join dir ''predictions.json'') (Some ptext),
          Evaluate dataset predictions,
          TimeTime t1, GFileRead (os_path_join dir ''training_summary.txt'') (Some stext),
          ReportBenchmark stats wall lo hi] \<and>
       wall = t1 - clock (world s) \<and> lo = 0.900 \<and> hi = 0.908 \<and>
       json_loads env dtext = Inr dataset_json \<and> getitem dataset_json ''data'' = Inr dataset \<and>
       json_loads env ptext = Inr predictions \<and>
       squad_evaluate env dataset predictions = Inr metrics \<and> getitem metrics ''f1'' = Inr f1 \<and>
       model_dir (FLAGS s) = Some dir \<and> json_loads env stext = Inr summary \<and>
       setitem summary ''eval_metrics'' f1 = Inr stats \<and>
       fst (BertSquadAccuracy_run_and_report_benchmark env s) =
         report_benchmark env stats wall lo hi"
proof -
  let ?m = "BertSquadAccuracy_run_and_report_benchmark env"
  from Accuracy_run_cases [of env s] show ?thesis
  proof
    assume "list_all (event_ok env (num_gpus s) (FLAGS s)) (new_events ?m s)"
    from event_ok_no_report [OF this, of stats wall lo hi] assms have False by simp
    then show ?thesis ..
  next
    assume "\<exists>p mtext meta strat ptext2 meta2 dtext dataset_json dataset dir ptext predictions
        metrics f1 t1 stext summary stats.
       new_events ?m s =
         [TimeTime (clock (world s)), GFileRead p (Some mtext),
          GetDistributionStrategy ''mirrored'' (num_gpus s), TrainSquad strat meta (FLAGS s),
          GFileRead p (Some ptext2),
          GetDistributionStrategy ''mirrored'' (num_gpus s), PredictSquad strat meta2 (FLAGS s),
          GFileRead SQUAD_PREDICT_FILE (Some dtext),
          GFileRead (os_path_join dir ''predictions.json'') (Some ptext),
          Evaluate dataset predictions,
          TimeTime t1, GFileRead (os_path_join dir ''training_summary.txt'') (Some stext),
          ReportBenchmark stats (t1 - clock (world s)) 0.900 0.908] \<and>
       input_meta_data_path (FLAGS s) = Some p \<and> json_loads env mtext = Inr meta \<and>
       json_loads env ptext2 = Inr meta2 \<and>
       get_distribution_strategy env ''mirrored'' (num_gpus s) = Inr strat \<and>
       json_loads env dtext = Inr dataset_json \<and> getitem dataset_json ''data'' = Inr dataset \<and>
       json_loads env ptext = Inr predictions \<and>
       squad_evaluate env dataset predictions = Inr metrics \<and> getitem metrics ''f1'' = Inr f1 \<and>
       model_dir (FLAGS s) = Some dir \<and> json_loads env stext = Inr summary \<and>
       setitem summary ''eval_metrics'' f1 = Inr stats \<and>
       fst (?m s) = report_benchmark env stats (t1 - clock (world s)) 0.900 0.908"
    then obtain p mtext meta strat ptext2 meta2 dtext dataset_json dataset dir ptext predictions
        metrics f1 t1 stext summary stats' where
      sh: "new_events ?m s =
         [TimeTime (clock (world s)), GFileRead p (Some mtext),
          GetDistributionStrategy ''mirrored'' (num_gpus s), TrainSquad strat meta (FLAGS s),
          GFileRead p (Some ptext2),
          GetDistributionStrategy ''mirrored'' (num_gpus s), PredictSquad strat meta2 (FLAGS s),
          GFileRead SQUAD_PREDICT_FILE (Some dtext),
          GFileRead (os_path_join dir ''predictions.json'') (Some ptext),
          Evaluate dataset predictions,
          TimeTime t1, GFileRead (os_path_join dir ''training_summary.txt'') (Some stext),
          ReportBenchmark stats' (t1 - clock (world s)) 0.900 0.908]"
      and f: "json_loads env dtext = Inr dataset_json" "getitem dataset_json ''data'' = Inr dataset"
        "json_loads env ptext = Inr predictions"
        "squad_evaluate env dataset predictions = Inr metrics" "getitem metrics ''f1'' = Inr f1"
        "model_dir (FLAGS s) = Some dir" "json_loads env stext = Inr summary"
        "setitem summary ''eval_metrics'' f1 = Inr stats'"
        "fst (?m s) = report_benchmark env stats' (t1 - clock (world s)) 0.900 0.908"
      by blast
    from assms sh have eq: "stats = stats'" "wall = t1 - clock (world s)" "lo = 0.900" "hi = 0.908"
      by simp_all
    from sh f show ?thesis
      unfolding eq by blast
  qed
qed


lemmas squad_defs = BertSquadAccuracy_benchmark_8_gpu_def BertSquadAccuracy_setup_def
  BertSquadAccuracy_run_and_report_benchmark_def BertSquadBenchmarkReal_setup_def
  BertSquadBenchmarkReal_run_and_report_benchmark_def
  BertSquadBenchmarkReal_benchmark_1_gpu_def BertSquadBenchmarkReal_benchmark_2_gpu_def
  BertSquadBenchmarkReal_benchmark_4_gpu_def BertSquadBenchmarkReal_benchmark_8_gpu_def
  super_setup_def assign_run_flags_def train_squad_def evaluate_squad_def
  read_training_summary_from_file_def read_input_meta_data_from_file_def
  read_predictions_dataset_from_file_def read_predictions_from_file_def
  get_distribution_strategy_method_def store_eval_metrics_def flagsaver_def framework_call_def
  gfile_read_def time_time_def of_result_def getitem_def setitem_def os_path_join_def

subsection \<open>The test methods\<close>

lemma benchmark_setup_fails:
  "b s = (Inl e, s\<lparr>trace := trace s @ [BaseSetup]\<rparr>) \<Longrightarrow> new_events b s = [BaseSetup]"
  by (simp add: new_events_def)

lemma Accuracy_benchmark_run:
  fixes env s
  defines "b \<equiv> BertSquadAccuracy_benchmark_8_gpu env"
    and "run \<equiv> BertSquadAccuracy_run_and_report_benchmark env"
  shows "new_events b s = [BaseSetup] \<or>
    (\<exists>sa. b s = run sa \<and> new_events b s = BaseSetup # new_events run sa \<and>
       trace sa = trace s @ [BaseSetup] \<and> num_gpus sa = 8 \<and>
       train_batch_size (FLAGS sa) = 32 \<and>
       model_dir (FLAGS sa) = Some (get_model_dir env ''benchmark_8_gpu_squad'') \<and>
       input_meta_data_path (FLAGS sa) = Some SQUAD_FULL_INPUT_META_DATA_PATH \<and>
       init_checkpoint (FLAGS sa) = Some PRETRAINED_CHECKPOINT_PATH \<and>
       num_train_epochs (FLAGS sa) = 2 \<and> world sa = world s)"
proof -
  from Accuracy_benchmark_cases [of env 8 "get_model_dir env ''benchmark_8_gpu_squad''" 32 run s]
  show ?thesis
  proof
    assume "\<exists>e. and_then (BertSquadAccuracy_setup env)
        (\<lambda>_. and_then (assign_run_flags 8 (get_model_dir env ''benchmark_8_gpu_squad'') 32)
           (\<lambda>_. run)) s = (Inl e, s\<lparr>trace := trace s @ [BaseSetup]\<rparr>)"
    then obtain e where "b s = (Inl e, s\<lparr>trace := trace s @ [BaseSetup]\<rparr>)"
      by (auto simp add: b_def run_def BertSquadAccuracy_benchmark_8_gpu_def)
    then have "new_events b s = [BaseSetup]"
      by (simp add: new_events_def)
    then show ?thesis ..
  next
    assume "\<exists>sa. and_then (BertSquadAccuracy_setup env)
        (\<lambda>_. and_then (assign_run_flags 8 (get_model_dir env ''benchmark_8_gpu_squad'') 32)
           (\<lambda>_. run)) s = run sa \<and> trace sa = trace s @ [BaseSetup] \<and> num_gpus sa = 8 \<and>
       train_batch_size (FLAGS sa) = 32 \<and>
       model_dir (FLAGS sa) = Some (get_model_dir env ''benchmark_8_gpu_squad'') \<and>
       input_meta_data_path (FLAGS sa) = Some SQUAD_FULL_INPUT_META_DATA_PATH \<and>
       init_checkpoint (FLAGS sa) = Some PRETRAINED_CHECKPOINT_PATH \<and>
       num_train_epochs (FLAGS sa) = 2 \<and> world sa = world s"
    then obtain sa where bs: "b s = run sa" and tr: "trace sa = trace s @ [BaseSetup]"
      and f: "num_gpus sa = 8" "train_batch_size (FLAGS sa) = 32"
        "model_dir (FLAGS sa) = Some (get_model_dir env ''benchmark_8_gpu_squad'')"
        "input_meta_data_path (FLAGS sa) = Some SQUAD_FULL_INPUT_META_DATA_PATH"
        "init_checkpoint (FLAGS sa) = Some PRETRAINED_CHECKPOINT_PATH"
        "num_train_epochs (FLAGS sa) = 2" "world sa = world s"
      by (auto simp add: b_def run_def BertSquadAccuracy_benchmark_8_gpu_def)
    have "keeps run sa"
      unfolding run_def by (rule keeps_Accuracy_run)
    from benchmark_events(1) [where b = b and s = s and run = run and sa = sa, OF bs tr this]
      bs tr f show ?thesis
      by blast
  qed
qed

lemma Real_benchmark_run:
  fixes env n name bs s
  defines "b \<equiv> and_then (BertSquadBenchmarkReal_setup env)
                 (\<lambda>_. and_then (assign_run_flags n (get_model_dir env name) bs)
                    (\<lambda>_. BertSquadBenchmarkReal_run_and_report_benchmark env))"
    and "run \<equiv> BertSquadBenchmarkReal_run_and_report_benchmark env"
  shows "new_events b s = [BaseSetup] \<or>
    (\<exists>sa. b s = run sa \<and> new_events b s = BaseSetup # new_events run sa \<and>
       trace sa = trace s @ [BaseSetup] \<and> num_gpus sa = n \<and>
       train_batch_size (FLAGS sa) = bs \<and>
       model_dir (FLAGS sa) = Some (get_model_dir env name) \<and>
       input_meta_data_path (FLAGS sa) = Some SQUAD_SMALL_INPUT_META_DATA_PATH \<and>
       num_train_epochs (FLAGS sa) = 1 \<and> world sa = world s)"
proof -
  from Real_benchmark_cases [of env n "get_model_dir env name" bs run s]
  show ?thesis
  proof
    assume "\<exists>e. and_then (BertSquadBenchmarkReal_setup env)
        (\<lambda>_. and_then (assign_run_flags n (get_model_dir env name) bs)
           (\<lambda>_. run)) s = (Inl e, s\<lparr>trace := trace s @ [BaseSetup]\<rparr>)"
    then obtain e where "b s = (Inl e, s\<lparr>trace := trace s @ [BaseSetup]\<rparr>)"
      by (auto simp add: b_def run_def)
    then have "new_events b s = [BaseSetup]"
      by (simp add: new_events_def)
    then show ?thesis ..
  next
    assume "\<exists>sa. and_then (BertSquadBenchmarkReal_setup env)
        (\<lambda>_. and_then (assign_run_flags n (get_model_dir env name) bs)
           (\<lambda>_. run)) s = run sa \<and> trace sa = trace s @ [BaseSetup] \<and> num_gpus sa = n \<and>
       train_batch_size (FLAGS sa) = bs \<and>
       model_dir (FLAGS sa) = Some (get_model_dir env name) \<and>
       input_meta_data_path (FLAGS sa) = Some SQUAD_SMALL_INPUT_META_DATA_PATH \<and>
       num_train_epochs (FLAGS sa) = 1 \<and> world sa = world s"
    then obtain sa where bs: "b s = run sa" and tr: "trace sa = trace s @ [BaseSetup]"
      and f: "num_gpus sa = n" "train_batch_size (FLAGS sa) = bs"
        "model_dir (FLAGS sa) = Some (get_model_dir env name)"
        "input_meta_data_path (FLAGS sa) = Some SQUAD_SMALL_INPUT_META_DATA_PATH"
        "num_train_epochs (FLAGS sa) = 1" "world sa = world s"
      by (auto simp add: b_def run_def)
    have "keeps run sa"
      unfolding run_def by (rule keeps_Real_run)
    from benchmark_events(1) [where b = b and s = s and run = run and sa = sa, OF bs tr this]
      bs tr f show ?thesis
      by blast
  qed
qed

subsection \<open>The benchmarks in the concrete world\<close>

lemmas demo_squad_defs = demo_squad_env_def demo_bench_def demo_world_def demo_flags_def
  demo_json_loads_def demo_write_def demo_ready_def demo_accuracy_flags_def demo_real_flags_def
  mirrored_def
  SQUAD_PREDICT_FILE_def SQUAD_SMALL_INPUT_META_DATA_PATH_def SQUAD_FULL_INPUT_META_DATA_PATH_def

lemma demo_accuracy_benchmark:
  "new_events (BertSquadAccuracy_benchmark_8_gpu demo_squad_env) demo_bench =
     [BaseSetup, TimeTime 1000,
      GFileRead SQUAD_FULL_INPUT_META_DATA_PATH (Some ''META''),
      GetDistributionStrategy ''mirrored'' 8,
      TrainSquad (mirrored 8) (JDict []) demo_accuracy_flags,
      GFileRead SQUAD_FULL_INPUT_META_DATA_PATH (Some ''META''),
      GetDistributionStrategy ''mirrored'' 8,
      PredictSquad (mirrored 8) (JDict []) demo_accuracy_flags,
      GFileRead SQUAD_PREDICT_FILE (Some ''DATASET''),
      GFileRead ''/tmp/benchmark_8_gpu_squad/predictions.json'' (Some ''PREDICTIONS''),
      Evaluate (JList []) (JDict []), TimeTime 1114,
      GFileRead ''/tmp/benchmark_8_gpu_squad/training_summary.txt'' (Some ''SUMMARY''),
      ReportBenchmark (JDict [(''train_loss'', JNum 1.5), (''eval_metrics'', JNum 0.904)])
        114 0.900 0.908]"
  by (simp add: squad_defs demo_squad_defs action_defs)

lemma demo_accuracy_benchmark_result:
  "fst (BertSquadAccuracy_benchmark_8_gpu demo_squad_env demo_bench) = Inr ()"
  by (simp add: squad_defs demo_squad_defs action_defs)

lemma demo_real_benchmark:
  "new_events (BertSquadBenchmarkReal_benchmark_2_gpu demo_squad_env) demo_bench =
     [BaseSetup, TimeTime 1000,
      GFileRead SQUAD_SMALL_INPUT_META_DATA_PATH (Some ''META''),
      GetDistributionStrategy ''mirrored'' 2,
      TrainSquad (mirrored 2) (JDict []) demo_real_flags,
      TimeTime 1101,
      GFileRead ''/tmp/benchmark_2_gpu_squad/training_summary.txt'' (Some ''SUMMARY''),
      ReportBenchmark (JDict [(''train_loss'', JNum 1.5)]) 101 0 1]"
  by (simp add: squad_defs demo_squad_defs action_defs)

lemma demo_evaluate_squad:
  "fst (evaluate_squad demo_squad_env demo_ready) = Inr ()"
  "eval_metrics (snd (evaluate_squad demo_squad_env demo_ready)) = Some (JNum 0.904)"
  by (simp_all add: squad_defs demo_squad_defs action_defs)

subsection \<open>The accuracy benchmark and the F1 score\<close>

text \<open>
  C1: whenever \<open>BertSquadAccuracy.benchmark_8_gpu\<close> gets as far as \<open>_report_benchmark\<close>,
  it passes \<open>min_accuracy=0.900\<close> and \<open>max_accuracy=0.908\<close>; before that it has trained
  under flags whose \<open>init_checkpoint\<close> is the fixed pretrained checkpoint and then evaluated;
  the \<open>eval_metrics\<close> entry of the \<open>stats\<close> it passes is the \<open>f1\<close> entry of what
  \<open>squad_evaluate_v1_1.evaluate\<close> answered; and the method ends as \<open>_report_benchmark\<close>
  does, so a failed threshold assertion there stops the benchmark.
\<close>

theorem BertSquadAccuracy_reports_f1:
  assumes "ReportBenchmark stats wall lo hi \<in>
      set (new_events (BertSquadAccuracy_benchmark_8_gpu env) s)"
  shows "lo = 0.900 \<and> hi = 0.908 \<and>
    (\<exists>pre strat meta fl mid dataset predictions post metrics f1.
       new_events (BertSquadAccuracy_benchmark_8_gpu env) s =
         pre @ [TrainSquad strat meta fl] @ mid @ [Evaluate dataset predictions] @ post @
         [ReportBenchmark stats wall lo hi] \<and>
       init_checkpoint fl = Some PRETRAINED_CHECKPOINT_PATH \<and>
       squad_evaluate env dataset predictions = Inr metrics \<and>
       getitem metrics ''f1'' = Inr f1 \<and>
       getitem stats ''eval_metrics'' = Inr f1) \<and>
    fst (BertSquadAccuracy_benchmark_8_gpu env s) = report_benchmark env stats wall 0.900 0.908"
proof -
  let ?b = "BertSquadAccuracy_benchmark_8_gpu env"
  let ?run = "BertSquadAccuracy_run_and_report_benchmark env"
  from Accuracy_benchmark_run [of env s] show ?thesis
  proof
    assume "new_events ?b s = [BaseSetup]"
    with assms have False by simp
    then show ?thesis ..
  next
    assume "\<exists>sa. ?b s = ?run sa \<and> new_events ?b s = BaseSetup # new_events ?run sa \<and>
       trace sa = trace s @ [BaseSetup] \<and> num_gpus sa = 8 \<and>
       train_batch_size (FLAGS sa) = 32 \<and>
       model_dir (FLAGS sa) = Some (get_model_dir env ''benchmark_8_gpu_squad'') \<and>
       input_meta_data_path (FLAGS sa) = Some SQUAD_FULL_INPUT_META_DATA_PATH \<and>
       init_checkpoint (FLAGS sa) = Some PRETRAINED_CHECKPOINT_PATH \<and>
       num_train_epochs (FLAGS sa) = 2 \<and> world sa = world s"
    then obtain sa where bs: "?b s = ?run sa"
      and ev: "new_events ?b s = BaseSetup # new_events ?run sa"
      and ck: "init_checkpoint (FLAGS sa) = Some PRETRAINED_CHECKPOINT_PATH"
      by blast
    from assms ev have "ReportBenchmark stats wall lo hi \<in> set (new_events ?run sa)"
      by simp
    from Accuracy_run_report [OF this]
    obtain p mtext meta strat ptext2 meta2 dtext dataset dir ptext predictions metrics f1 t1
      stext summary where
      sh: "new_events ?run sa =
         [TimeTime (clock (world sa)), GFileRead p (Some mtext),
          GetDistributionStrategy ''mirrored'' (num_gpus sa), TrainSquad strat meta (FLAGS sa),
          GFileRead p (Some ptext2), GetDistributionStrategy ''mirrored'' (num_gpus sa),
          PredictSquad strat meta2 (FLAGS sa), GFileRead SQUAD_PREDICT_FILE (Some dtext),
          GFileRead (os_path_join dir ''predictions.json'') (Some ptext),
          Evaluate dataset predictions, TimeTime t1,
          GFileRead (os_path_join dir ''training_summary.txt'') (Some stext),
          ReportBenchmark stats wall lo hi]"
      and lh: "lo = 0.900" "hi = 0.908"
      and sc: "squad_evaluate env dataset predictions = Inr metrics"
        "getitem metrics ''f1'' = Inr f1"
      and st: "setitem summary ''eval_metrics'' f1 = Inr stats"
      and rs: "fst (?run sa) = report_benchmark env stats wall lo hi"
      by blast
    have "new_events ?b s =
        [BaseSetup, TimeTime (clock (world sa)), GFileRead p (Some mtext),
         GetDistributionStrategy ''mirrored'' (num_gpus sa)] @
        [TrainSquad strat meta (FLAGS sa)] @
        [GFileRead p (Some ptext2), GetDistributionStrategy ''mirrored'' (num_gpus sa),
         PredictSquad strat meta2 (FLAGS sa), GFileRead SQUAD_PREDICT_FILE (Some dtext),
         GFileRead (os_path_join dir ''predictions.json'') (Some ptext)] @
        [Evaluate dataset predictions] @
        [TimeTime t1, GFileRead (os_path_join dir ''training_summary.txt'') (Some stext)] @
        [ReportBenchmark stats wall lo hi]"
      by (simp add: ev sh)
    with ck sc getitem_setitem [OF st]
    have "\<exists>pre strat meta fl mid dataset predictions post metrics f1.
       new_events ?b s =
         pre @ [TrainSquad strat meta fl] @ mid @ [Evaluate dataset predictions] @ post @
         [ReportBenchmark stats wall lo hi] \<and>
       init_checkpoint fl = Some PRETRAINED_CHECKPOINT_PATH \<and>
       squad_evaluate env dataset predictions = Inr metrics \<and>
       getitem metrics ''f1'' = Inr f1 \<and>
       getitem stats ''eval_metrics'' = Inr f1"
      by blast
    moreover from rs bs lh
    have "fst (?b s) = report_benchmark env stats wall 0.900 0.908"
      by simp
    ultimately show ?thesis
      using lh by blast
  qed
qed

theorem BertSquadAccuracy_reports_f1_witness:
  "ReportBenchmark (JDict [(''train_loss'', JNum 1.5), (''eval_metrics'', JNum 0.904)])
       114 0.900 0.908 \<in>
     set (new_events (BertSquadAccuracy_benchmark_8_gpu demo_squad_env) demo_bench) \<and>
   fst (BertSquadAccuracy_benchmark_8_gpu demo_squad_env demo_bench) =
     report_benchmark demo_squad_env
       (JDict [(''train_loss'', JNum 1.5), (''eval_metrics'', JNum 0.904)]) 114 0.900 0.908"
proof -
  have h: "ReportBenchmark (JDict [(''train_loss'', JNum 1.5), (''eval_metrics'', JNum 0.904)])
       114 0.900 0.908 \<in>
     set (new_events (BertSquadAccuracy_benchmark_8_gpu demo_squad_env) demo_bench)"
    by (simp add: demo_accuracy_benchmark)
  show ?thesis
    using h BertSquadAccuracy_reports_f1 [OF h]
    by simp
qed

subsection \<open>What \<open>_evaluate_squad\<close> stores\<close>

text \<open>
  C5: when \<open>_evaluate_squad\<close> returns, it has read the dataset file and the file
  \<open>predictions.json\<close> under \<open>FLAGS.model_dir\<close> (after the prediction run), has applied
  \<open>squad_evaluate_v1_1.evaluate\<close> to the \<open>data\<close> entry of the decoded dataset and to the
  decoded predictions, and \<open>self.eval_metrics\<close> is the \<open>f1\<close> entry of the metrics
  answered: that entry alone, whatever else the metrics hold.
\<close>

theorem evaluate_squad_stores_f1:
  assumes "evaluate_squad env s = (Inr u, s')"
  shows "\<exists>p mtext meta strat dir dtext dataset_json dataset ptext predictions metrics f1.
      model_dir (FLAGS s) = Some dir \<and>
      new_events (evaluate_squad env) s =
        [GFileRead p (Some mtext), GetDistributionStrategy ''mirrored'' (num_gpus s),
         PredictSquad strat meta (FLAGS s),
         GFileRead SQUAD_PREDICT_FILE (Some dtext),
         GFileRead (os_path_join dir ''predictions.json'') (Some ptext),
         Evaluate dataset predictions] \<and>
      json_loads env dtext = Inr dataset_json \<and> getitem dataset_json ''data'' = Inr dataset \<and>
      json_loads env ptext = Inr predictions \<and>
      squad_evaluate env dataset predictions = Inr metrics \<and>
      getitem metrics ''f1'' = Inr f1 \<and>
      eval_metrics s' = Some f1"
proof -
  from evaluate_squad_Inr [OF assms]
  obtain p mtext meta strat dtext dataset_json dataset dir ptext predictions metrics f1 where
    f: "json_loads env dtext = Inr dataset_json" "getitem dataset_json ''data'' = Inr dataset"
      "model_dir (FLAGS s) = Some dir" "json_loads env ptext = Inr predictions"
      "squad_evaluate env dataset predictions = Inr metrics" "getitem metrics ''f1'' = Inr f1"
      "eval_metrics s' = Some f1"
    and tr: "trace s' = trace s @ [GFileRead p (Some mtext),
        GetDistributionStrategy ''mirrored'' (num_gpus s), PredictSquad strat meta (FLAGS s),
        GFileRead SQUAD_PREDICT_FILE (Some dtext),
        GFileRead (os_path_join dir ''predictions.json'') (Some ptext),
        Evaluate dataset predictions]"
    by blast
  from tr assms have "new_events (evaluate_squad env) s =
      [GFileRead p (Some mtext), GetDistributionStrategy ''mirrored'' (num_gpus s),
       PredictSquad strat meta (FLAGS s),
       GFileRead SQUAD_PREDICT_FILE (Some dtext),
       GFileRead (os_path_join dir ''predictions.json'') (Some ptext),
       Evaluate dataset predictions]"
    by (simp add: new_events_def)
  with f show ?thesis
    by blast
qed

theorem evaluate_squad_stores_f1_witness:
  "evaluate_squad demo_squad_env demo_ready =
     (Inr (), snd (evaluate_squad demo_squad_env demo_ready)) \<and>
   squad_evaluate demo_squad_env (JList []) (JDict []) =
     Inr (JDict [(''exact_match'', JNum 0.83), (''f1'', JNum 0.904)]) \<and>
   eval_metrics (snd (evaluate_squad demo_squad_env demo_ready)) = Some (JNum 0.904)"
proof -
  have h: "evaluate_squad demo_squad_env demo_ready =
      (Inr (), snd (evaluate_squad demo_squad_env demo_ready))"
    using demo_evaluate_squad(1) by (simp add: prod_eq_iff)
  show ?thesis
    using h evaluate_squad_stores_f1 [OF h]
    by (simp add: demo_evaluate_squad(2)) (simp add: demo_squad_env_def)
qed

subsection \<open>How the test methods configure a run\<close>

lemma event_ok_strategy: "event_ok env n fl e \<Longrightarrow> strategy_use_ok env n e"
  by (cases e) simp_all

lemma run_event_ok_strategy:
  "list_all (run_event_ok env n fl) evs \<Longrightarrow> list_all (strategy_use_ok env n) evs"
  by (auto simp add: list_all_iff run_event_ok_def event_ok_strategy)

lemma steps_strategy:
  assumes "steps env m s"
  shows "list_all (strategy_use_ok env (num_gpus s)) (new_events m s)"
proof -
  from assms obtain evs where tr: "trace (snd (m s)) = trace s @ evs"
    and ok: "list_all (event_ok env (num_gpus s) (FLAGS s)) evs"
    by (auto simp add: steps_def)
  have "new_events m s = evs"
    using tr by (simp add: new_events_def)
  with run_event_ok_strategy [OF event_ok_run [OF ok]]
  show ?thesis by simp
qed

lemma Real_setup_Inl:
  assumes "base_setup env (FLAGS s) = Inl e"
  shows "and_then (BertSquadBenchmarkReal_setup env) f s =
           (Inl e, s\<lparr>trace := trace s @ [BaseSetup]\<rparr>)"
  using assms
  by (simp add: BertSquadBenchmarkReal_setup_def super_setup_def and_then_def)

lemma Real_setup_Inr:
  assumes "base_setup env (FLAGS s) = Inr fl"
  shows "and_then (BertSquadBenchmarkReal_setup env)
           (\<lambda>_. and_then (assign_run_flags n dir bs) (\<lambda>_. run)) s =
         run (s\<lparr>trace := trace s @ [BaseSetup], num_gpus := n,
                FLAGS := fl\<lparr>train_data_path := Some SQUAD_TRAIN_DATA_PATH,
                  predict_file := Some SQUAD_PREDICT_FILE, vocab_file := Some SQUAD_VOCAB_FILE,
                  input_meta_data_path := Some SQUAD_SMALL_INPUT_META_DATA_PATH,
                  bert_config_file := Some MODEL_CONFIG_FILE_PATH, num_train_epochs := 1,
                  model_dir := Some dir, train_batch_size := bs\<rparr>\<rparr>)"
  using assms
  by (simp add: BertSquadBenchmarkReal_setup_def super_setup_def and_then_def
      assign_run_flags_def)

lemma Real_benchmark_calls:
  fixes env n name bs s
  defines "b \<equiv> and_then (BertSquadBenchmarkReal_setup env)
                 (\<lambda>_. and_then (assign_run_flags n (get_model_dir env name) bs)
                    (\<lambda>_. BertSquadBenchmarkReal_run_and_report_benchmark env))"
  shows "\<exists>fl. train_batch_size fl = bs \<and> model_dir fl = Some (get_model_dir env name) \<and>
           list_all (\<lambda>e. e = BaseSetup \<or> run_event_ok env n fl e) (new_events b s)"
proof -
  let ?run = "BertSquadBenchmarkReal_run_and_report_benchmark env"
  from Real_benchmark_run [of env n name bs s] show ?thesis
  proof
    assume "new_events (and_then (BertSquadBenchmarkReal_setup env)
        (\<lambda>_. and_then (assign_run_flags n (get_model_dir env name) bs) (\<lambda>_. ?run))) s =
        [BaseSetup]"
    then have "list_all (\<lambda>e. e = BaseSetup \<or>
          run_event_ok env n
            (undefined\<lparr>train_batch_size := bs, model_dir := Some (get_model_dir env name)\<rparr>) e)
        (new_events b s)"
      by (simp add: b_def)
    moreover have "train_batch_size
        (undefined\<lparr>train_batch_size := bs, model_dir := Some (get_model_dir env name)\<rparr>) = bs"
      "model_dir (undefined\<lparr>train_batch_size := bs, model_dir := Some (get_model_dir env name)\<rparr>)
        = Some (get_model_dir env name)"
      by simp_all
    ultimately show ?thesis by blast
  next
    assume "\<exists>sa. and_then (BertSquadBenchmarkReal_setup env)
        (\<lambda>_. and_then (assign_run_flags n (get_model_dir env name) bs) (\<lambda>_. ?run)) s = ?run sa \<and>
       new_events (and_then (BertSquadBenchmarkReal_setup env)
        (\<lambda>_. and_then (assign_run_flags n (get_model_dir env name) bs) (\<lambda>_. ?run))) s =
         BaseSetup # new_events ?run sa \<and>
       trace sa = trace s @ [BaseSetup] \<and> num_gpus sa = n \<and>
       train_batch_size (FLAGS sa) = bs \<and>
       model_dir (FLAGS sa) = Some (get_model_dir env name) \<and>
       input_meta_data_path (FLAGS sa) = Some SQUAD_SMALL_INPUT_META_DATA_PATH \<and>
       num_train_epochs (FLAGS sa) = 1 \<and> world sa = world s"
    then obtain sa where ev: "new_events b s = BaseSetup # new_events ?run sa"
      and f: "num_gpus sa = n" "train_batch_size (FLAGS sa) = bs"
        "model_dir (FLAGS sa) = Some (get_model_dir env name)"
      unfolding b_def by blast
    from Real_run_events_ok [of env sa] f(1)
    have "list_all (run_event_ok env n (FLAGS sa)) (new_events ?run sa)"
      by simp
    then have "list_all (\<lambda>e. e = BaseSetup \<or> run_event_ok env n (FLAGS sa) e) (new_events b s)"
      by (simp add: ev list_all_iff)
    with f show ?thesis by blast
  qed
qed

lemma Real_benchmark_train_call:
  fixes env n name bs s
  defines "b \<equiv> and_then (BertSquadBenchmarkReal_setup env)
                 (\<lambda>_. and_then (assign_run_flags n (get_model_dir env name) bs)
                    (\<lambda>_. BertSquadBenchmarkReal_run_and_report_benchmark env))"
  assumes "TrainSquad strat meta fl' \<in> set (new_events b s)"
  shows "train_batch_size fl' = bs \<and> model_dir fl' = Some (get_model_dir env name) \<and>
         get_distribution_strategy env ''mirrored'' n = Inr strat"
proof -
  from Real_benchmark_calls [of bs env name n s]
  obtain fl where f: "train_batch_size fl = bs" "model_dir fl = Some (get_model_dir env name)"
    and ok: "list_all (\<lambda>e. e = BaseSetup \<or> run_event_ok env n fl e) (new_events b s)"
    unfolding b_def by blast
  from ok assms(2) have "run_event_ok env n fl (TrainSquad strat meta fl')"
    by (auto simp add: list_all_iff)
  with f show ?thesis
    by (simp add: run_event_ok_def)
qed

lemma Real_benchmark_strategy_call:
  fixes env n name bs s
  defines "b \<equiv> and_then (BertSquadBenchmarkReal_setup env)
                 (\<lambda>_. and_then (assign_run_flags n (get_model_dir env name) bs)
                    (\<lambda>_. BertSquadBenchmarkReal_run_and_report_benchmark env))"
  assumes "GetDistributionStrategy nm k \<in> set (new_events b s)"
  shows "nm = ''mirrored'' \<and> k = n"
proof -
  from Real_benchmark_calls [of bs env name n s]
  obtain fl where
    ok: "list_all (\<lambda>e. e = BaseSetup \<or> run_event_ok env n fl e) (new_events b s)"
    unfolding b_def by blast
  from ok assms(2) have "run_event_ok env n fl (GetDistributionStrategy nm k)"
    by (auto simp add: list_all_iff)
  then show ?thesis
    by (simp add: run_event_ok_def)
qed

lemma Real_benchmark_strategy:
  fixes env n name bs s
  defines "b \<equiv> and_then (BertSquadBenchmarkReal_setup env)
                 (\<lambda>_. and_then (assign_run_flags n (get_model_dir env name) bs)
                    (\<lambda>_. BertSquadBenchmarkReal_run_and_report_benchmark env))"
  shows "list_all (strategy_use_ok env n) (new_events b s)"
proof -
  from Real_benchmark_calls [of bs env name n s]
  obtain fl where
    ok: "list_all (\<lambda>e. e = BaseSetup \<or> run_event_ok env n fl e) (new_events b s)"
    unfolding b_def by blast
  have "strategy_use_ok env n e" if "e \<in> set (new_events b s)" for e
  proof -
    from ok that have "e = BaseSetup \<or> run_event_ok env n fl e"
      by (auto simp add: list_all_iff)
    then show ?thesis
    proof
      assume "e = BaseSetup"
      then show ?thesis by simp
    next
      assume "run_event_ok env n fl e"
      then have "list_all (run_event_ok env n fl) [e]" by simp
      from run_event_ok_strategy [OF this] show ?thesis by simp
    qed
  qed
  then show ?thesis
    by (simp add: list_all_iff)
qed

lemma Accuracy_benchmark_strategy:
  "list_all (strategy_use_ok env 8) (new_events (BertSquadAccuracy_benchmark_8_gpu env) s)"
proof -
  let ?b = "BertSquadAccuracy_benchmark_8_gpu env"
  let ?run = "BertSquadAccuracy_run_and_report_benchmark env"
  from Accuracy_benchmark_run [of env s] show ?thesis
  proof
    assume "new_events ?b s = [BaseSetup]"
    then show ?thesis by simp
  next
    assume "\<exists>sa. ?b s = ?run sa \<and> new_events ?b s = BaseSetup # new_events ?run sa \<and>
       trace sa = trace s @ [BaseSetup] \<and> num_gpus sa = 8 \<and>
       train_batch_size (FLAGS sa) = 32 \<and>
       model_dir (FLAGS sa) = Some (get_model_dir env ''benchmark_8_gpu_squad'') \<and>
       input_meta_data_path (FLAGS sa) = Some SQUAD_FULL_INPUT_META_DATA_PATH \<and>
       init_checkpoint (FLAGS sa) = Some PRETRAINED_CHECKPOINT_PATH \<and>
       num_train_epochs (FLAGS sa) = 2 \<and> world sa = world s"
    then obtain sa where ev: "new_events ?b s = BaseSetup # new_events ?run sa"
      and n: "num_gpus sa = 8"
      by blast
    from run_event_ok_strategy [OF Accuracy_run_events_ok [of env sa]] n
    show ?thesis
      by (simp add: ev)
  qed
qed

text \<open>
  C6: for \<open>N\<close> in 1, 2, 4 and 8, \<open>BertSquadBenchmarkReal.benchmark_N_gpu\<close> stops with
  the error of the base class's \<open>_setup\<close> when that raises, and otherwise is
  \<open>_run_and_report_benchmark\<close> run from the state in which \<open>self.num_gpus\<close> is \<open>N\<close>,
  \<open>FLAGS.train_batch_size\<close> is \<open>4 * N\<close> and \<open>FLAGS.model_dir\<close> is
  \<open>self._get_model_dir('benchmark_N_gpu_squad')\<close>, on top of the flags \<open>_setup\<close> set.
  Accordingly every training call the method makes runs under flags with that batch size
  and model directory and under the strategy answered for \<open>N\<close> GPUs, and every request
  for a strategy asks for \<open>N\<close> GPUs.
\<close>

theorem benchmark_N_gpu_configuration:
  assumes "(n, name, b) \<in>
      {(1, ''benchmark_1_gpu_squad'', BertSquadBenchmarkReal_benchmark_1_gpu env),
       (2, ''benchmark_2_gpu_squad'', BertSquadBenchmarkReal_benchmark_2_gpu env),
       (4, ''benchmark_4_gpu_squad'', BertSquadBenchmarkReal_benchmark_4_gpu env),
       (8, ''benchmark_8_gpu_squad'', BertSquadBenchmarkReal_benchmark_8_gpu env)}"
  shows "(\<forall>e. base_setup env (FLAGS s) = Inl e \<longrightarrow>
            b s = (Inl e, s\<lparr>trace := trace s @ [BaseSetup]\<rparr>)) \<and>
         (\<forall>fl. base_setup env (FLAGS s) = Inr fl \<longrightarrow>
            b s = BertSquadBenchmarkReal_run_and_report_benchmark env
              (s\<lparr>trace := trace s @ [BaseSetup], num_gpus := n,
                 FLAGS := fl\<lparr>train_data_path := Some SQUAD_TRAIN_DATA_PATH,
                   predict_file := Some SQUAD_PREDICT_FILE,
                   vocab_file := Some SQUAD_VOCAB_FILE,
                   input_meta_data_path := Some SQUAD_SMALL_INPUT_META_DATA_PATH,
                   bert_config_file := Some MODEL_CONFIG_FILE_PATH, num_train_epochs := 1,
                   model_dir := Some (get_model_dir env name),
                   train_batch_size := 4 * n\<rparr>\<rparr>)) \<and>
         (\<forall>strat meta fl. TrainSquad strat meta fl \<in> set (new_events b s) \<longrightarrow>
            train_batch_size fl = 4 * n \<and> model_dir fl = Some (get_model_dir env name) \<and>
            get_distribution_strategy env ''mirrored'' n = Inr strat) \<and>
         (\<forall>nm k. GetDistributionStrategy nm k \<in> set (new_events b s) \<longrightarrow> k = n)"
proof -
  from assms
  have b: "b = and_then (BertSquadBenchmarkReal_setup env)
      (\<lambda>_. and_then (assign_run_flags n (get_model_dir env name) (4 * n))
         (\<lambda>_. BertSquadBenchmarkReal_run_and_report_benchmark env))"
    by (auto simp add: BertSquadBenchmarkReal_benchmark_1_gpu_def
        BertSquadBenchmarkReal_benchmark_2_gpu_def BertSquadBenchmarkReal_benchmark_4_gpu_def
        BertSquadBenchmarkReal_benchmark_8_gpu_def)
  show ?thesis
    unfolding b
  proof (intro conjI allI impI)
    fix e
    assume "base_setup env (FLAGS s) = Inl e"
    then show "and_then (BertSquadBenchmarkReal_setup env)
        (\<lambda>_. and_then (assign_run_flags n (get_model_dir env name) (4 * n))
           (\<lambda>_. BertSquadBenchmarkReal_run_and_report_benchmark env)) s =
        (Inl e, s\<lparr>trace := trace s @ [BaseSetup]\<rparr>)"
      by (rule Real_setup_Inl)
  next
    fix fl
    assume "base_setup env (FLAGS s) = Inr fl"
    then show "and_then (BertSquadBenchmarkReal_setup env)
        (\<lambda>_. and_then (assign_run_flags n (get_model_dir env name) (4 * n))
           (\<lambda>_. BertSquadBenchmarkReal_run_and_report_benchmark env)) s =
        BertSquadBenchmarkReal_run_and_report_benchmark env
          (s\<lparr>trace := trace s @ [BaseSetup], num_gpus := n,
             FLAGS := fl\<lparr>train_data_path := Some SQUAD_TRAIN_DATA_PATH,
               predict_file := Some SQUAD_PREDICT_FILE,
               vocab_file := Some SQUAD_VOCAB_FILE,
               input_meta_data_path := Some SQUAD_SMALL_INPUT_META_DATA_PATH,
               bert_config_file := Some MODEL_CONFIG_FILE_PATH, num_train_epochs := 1,
               model_dir := Some (get_model_dir env name),
               train_batch_size := 4 * n\<rparr>\<rparr>)"
      by (rule Real_setup_Inr)
  next
    fix strat meta fl
    assume a: "TrainSquad strat meta fl \<in> set (new_events (and_then (BertSquadBenchmarkReal_setup env)
        (\<lambda>_. and_then (assign_run_flags n (get_model_dir env name) (4 * n))
           (\<lambda>_. BertSquadBenchmarkReal_run_and_report_benchmark env))) s)"
    from Real_benchmark_train_call [OF a]
    show "train_batch_size fl = 4 * n" "model_dir fl = Some (get_model_dir env name)"
      "get_distribution_strategy env ''mirrored'' n = Inr strat"
      by simp_all
  next
    fix nm k
    assume a: "GetDistributionStrategy nm k \<in> set (new_events (and_then (BertSquadBenchmarkReal_setup env)
        (\<lambda>_. and_then (assign_run_flags n (get_model_dir env name) (4 * n))
           (\<lambda>_. BertSquadBenchmarkReal_run_and_report_benchmark env))) s)"
    from Real_benchmark_strategy_call [OF a]
    show "k = n"
      by simp
  qed
qed

theorem benchmark_N_gpu_configuration_witness:
  "base_setup demo_squad_env (FLAGS demo_bench) = Inr (demo_flags ''mirror'') \<and>
   TrainSquad (mirrored 2) (JDict []) demo_real_flags \<in>
     set (new_events (BertSquadBenchmarkReal_benchmark_2_gpu demo_squad_env) demo_bench) \<and>
   train_batch_size demo_real_flags = 4 * 2 \<and>
   model_dir demo_real_flags = Some (get_model_dir demo_squad_env ''benchmark_2_gpu_squad'') \<and>
   GetDistributionStrategy ''mirrored'' 2 \<in>
     set (new_events (BertSquadBenchmarkReal_benchmark_2_gpu demo_squad_env) demo_bench)"
proof -
  have h: "(2, ''benchmark_2_gpu_squad'',
       BertSquadBenchmarkReal_benchmark_2_gpu demo_squad_env) \<in>
      {(1, ''benchmark_1_gpu_squad'', BertSquadBenchmarkReal_benchmark_1_gpu demo_squad_env),
       (2, ''benchmark_2_gpu_squad'', BertSquadBenchmarkReal_benchmark_2_gpu demo_squad_env),
       (4, ''benchmark_4_gpu_squad'', BertSquadBenchmarkReal_benchmark_4_gpu demo_squad_env),
       (8, ''benchmark_8_gpu_squad'', BertSquadBenchmarkReal_benchmark_8_gpu demo_squad_env)}"
    by simp
  have s: "base_setup demo_squad_env (FLAGS demo_bench) = Inr (demo_flags ''mirror'')"
    by (simp add: demo_squad_env_def demo_bench_def)
  have t: "TrainSquad (mirrored 2) (JDict []) demo_real_flags \<in>
      set (new_events (BertSquadBenchmarkReal_benchmark_2_gpu demo_squad_env) demo_bench)"
    "GetDistributionStrategy ''mirrored'' 2 \<in>
      set (new_events (BertSquadBenchmarkReal_benchmark_2_gpu demo_squad_env) demo_bench)"
    by (simp_all add: demo_real_benchmark)
  from t(1) benchmark_N_gpu_configuration [OF h, of demo_bench]
  have "train_batch_size demo_real_flags = 4 * 2 \<and>
      model_dir demo_real_flags = Some (get_model_dir demo_squad_env ''benchmark_2_gpu_squad'')"
    by blast
  with s t show ?thesis
    by blast
qed

subsection \<open>The distribution strategy\<close>

text \<open>
  C7: every call that \<open>_train_squad\<close>, \<open>_evaluate_squad\<close>, the two
  \<open>_run_and_report_benchmark\<close> methods and the five test methods make uses the
  distribution strategy in one way only: a strategy is requested by the name
  \<open>mirrored\<close> with \<open>self.num_gpus\<close> GPUs (\<open>N\<close> in \<open>benchmark_N_gpu\<close>), and every
  training and prediction call runs under the strategy that this request answers.
\<close>

theorem strategy_is_always_mirrored:
  "list_all (strategy_use_ok env (num_gpus s)) (new_events (train_squad env) s) \<and>
   list_all (strategy_use_ok env (num_gpus s)) (new_events (evaluate_squad env) s) \<and>
   list_all (strategy_use_ok env (num_gpus s))
     (new_events (BertSquadBenchmarkReal_run_and_report_benchmark env) s) \<and>
   list_all (strategy_use_ok env (num_gpus s))
     (new_events (BertSquadAccuracy_run_and_report_benchmark env) s) \<and>
   list_all (strategy_use_ok env 1) (new_events (BertSquadBenchmarkReal_benchmark_1_gpu env) s) \<and>
   list_all (strategy_use_ok env 2) (new_events (BertSquadBenchmarkReal_benchmark_2_gpu env) s) \<and>
   list_all (strategy_use_ok env 4) (new_events (BertSquadBenchmarkReal_benchmark_4_gpu env) s) \<and>
   list_all (strategy_use_ok env 8) (new_events (BertSquadBenchmarkReal_benchmark_8_gpu env) s) \<and>
   list_all (strategy_use_ok env 8) (new_events (BertSquadAccuracy_benchmark_8_gpu env) s)"
proof (intro conjI)
  show "list_all (strategy_use_ok env (num_gpus s)) (new_events (train_squad env) s)"
    by (rule steps_strategy [OF steps_train_squad])
  show "list_all (strategy_use_ok env (num_gpus s)) (new_events (evaluate_squad env) s)"
    by (rule steps_strategy [OF steps_evaluate_squad])
  show "list_all (strategy_use_ok env (num_gpus s))
     (new_events (BertSquadBenchmarkReal_run_and_report_benchmark env) s)"
    by (rule run_event_ok_strategy [OF Real_run_events_ok])
  show "list_all (strategy_use_ok env (num_gpus s))
     (new_events (BertSquadAccuracy_run_and_report_benchmark env) s)"
    by (rule run_event_ok_strategy [OF Accuracy_run_events_ok])
  show "list_all (strategy_use_ok env 1) (new_events (BertSquadBenchmarkReal_benchmark_1_gpu env) s)"
    unfolding BertSquadBenchmarkReal_benchmark_1_gpu_def by (rule Real_benchmark_strategy)
  show "list_all (strategy_use_ok env 2) (new_events (BertSquadBenchmarkReal_benchmark_2_gpu env) s)"
    unfolding BertSquadBenchmarkReal_benchmark_2_gpu_def by (rule Real_benchmark_strategy)
  show "list_all (strategy_use_ok env 4) (new_events (BertSquadBenchmarkReal_benchmark_4_gpu env) s)"
    unfolding BertSquadBenchmarkReal_benchmark_4_gpu_def by (rule Real_benchmark_strategy)
  show "list_all (strategy_use_ok env 8) (new_events (BertSquadBenchmarkReal_benchmark_8_gpu env) s)"
    unfolding BertSquadBenchmarkReal_benchmark_8_gpu_def by (rule Real_benchmark_strategy)
  show "list_all (strategy_use_ok env 8) (new_events (BertSquadAccuracy_benchmark_8_gpu env) s)"
    by (rule Accuracy_benchmark_strategy)
qed

theorem strategy_is_always_mirrored_witness:
  "list_all (strategy_use_ok demo_squad_env 8)
     (new_events (BertSquadAccuracy_benchmark_8_gpu demo_squad_env) demo_bench) \<and>
   GetDistributionStrategy ''mirrored'' 8 \<in>
     set (new_events (BertSquadAccuracy_benchmark_8_gpu demo_squad_env) demo_bench) \<and>
   TrainSquad (mirrored 8) (JDict []) demo_accuracy_flags \<in>
     set (new_events (BertSquadAccuracy_benchmark_8_gpu demo_squad_env) demo_bench) \<and>
   PredictSquad (mirrored 8) (JDict []) demo_accuracy_flags \<in>
     set (new_events (BertSquadAccuracy_benchmark_8_gpu demo_squad_env) demo_bench)"
proof -
  have m: "GetDistributionStrategy ''mirrored'' 8 \<in>
      set (new_events (BertSquadAccuracy_benchmark_8_gpu demo_squad_env) demo_bench)"
    "TrainSquad (mirrored 8) (JDict []) demo_accuracy_flags \<in>
      set (new_events (BertSquadAccuracy_benchmark_8_gpu demo_squad_env) demo_bench)"
    "PredictSquad (mirrored 8) (JDict []) demo_accuracy_flags \<in>
      set (new_events (BertSquadAccuracy_benchmark_8_gpu demo_squad_env) demo_bench)"
    by (simp_all add: demo_accuracy_benchmark)
  from strategy_is_always_mirrored [of demo_squad_env demo_bench]
  have "list_all (strategy_use_ok demo_squad_env 8)
      (new_events (BertSquadAccuracy_benchmark_8_gpu demo_squad_env) demo_bench)"
    by blast
  with m show ?thesis
    by blast
qed

subsection \<open>The runs in the concrete world\<close>




subsection \<open>The training summary\<close>



subsection \<open>The order of a run\<close>



section \<open>Properties of official/resnet/keras/keras_imagenet_test.py\<close>

lemma outside_call_eq:
  "outside_call e f s =
     (fst (f (outside s)), s\<lparr>outside := snd (f (outside s)), calls := calls s @ [e]\<rparr>)"
  by (simp add: outside_call_def split: prod.splits)

lemma new_calls_eq: "calls (snd (m s)) = calls s @ evs \<Longrightarrow> new_calls m s = evs"
  by (simp add: new_calls_def)

lemma and_then_returns: "and_then (returns x) f = f x"
  by (simp add: and_then_def returns_def fun_eq_iff)

lemma get_temp_dir_set:
  assumes "tempdir s = Some d" and "d \<noteq> []"
  shows "get_temp_dir env s = (Inr d, s)"
  using assms by (simp add: get_temp_dir_def)

lemma get_temp_dir_unset:
  assumes "tempdir s = None \<or> tempdir s = Some []"
  shows "get_temp_dir env s =
     (case mkdtemp env (googletest_GetTempDir env) (outside s) of
        (Inl e, w) \<Rightarrow>
          (Inl e, s\<lparr>outside := w, calls := calls s @ [Mkdtemp (googletest_GetTempDir env)]\<rparr>)
      | (Inr d, w) \<Rightarrow>
          (Inr d, s\<lparr>outside := w, calls := calls s @ [Mkdtemp (googletest_GetTempDir env)],
                     tempdir := Some d\<rparr>))"
  using assms
  by (auto simp add: get_temp_dir_def and_then_def outside_call_def split: prod.splits sum.splits)

lemma get_temp_dir_calls:
  "new_calls (get_temp_dir env) s =
     (if tempdir s = None \<or> tempdir s = Some [] then [Mkdtemp (googletest_GetTempDir env)]
      else [])"
proof (cases "tempdir s = None \<or> tempdir s = Some []")
  case True
  obtain r w where m: "mkdtemp env (googletest_GetTempDir env) (outside s) = (r, w)"
    by (cases "mkdtemp env (googletest_GetTempDir env) (outside s)")
  have "new_calls (get_temp_dir env) s = [Mkdtemp (googletest_GetTempDir env)]"
    by (cases r) (simp_all add: get_temp_dir_unset [OF True] m new_calls_def)
  with True show ?thesis
    by simp
next
  case False
  then obtain d where d: "tempdir s = Some d" "d \<noteq> []"
    by (cases "tempdir s") auto
  from get_temp_dir_set [OF d, of env] have "new_calls (get_temp_dir env) s = []"
    by (simp add: new_calls_def)
  with d show ?thesis
    by simp
qed

lemma get_temp_dir_Inr:
  assumes "get_temp_dir env s = (Inr d, s')"
  shows "tempdir s' = Some d"
proof (cases "tempdir s = None \<or> tempdir s = Some []")
  case True
  from get_temp_dir_unset [OF True, of env] assms show ?thesis
    by (auto split: prod.splits sum.splits)
next
  case False
  with assms show ?thesis
    by (auto simp add: get_temp_dir_def)
qed

lemma repeatedly_fixed:
  assumes "m s = (Inr x, s)"
  shows "repeatedly n m s = (Inr (replicate n x), s)"
  using assms by (induction n) (simp_all add: returns_def and_then_def)

lemma tearDown_set:
  assumes "tempdir s = Some d" and "d \<noteq> []"
  shows "tearDown env s =
     (case super_tearDown env (outside s) of
        (Inl e, w) \<Rightarrow> (Inl e, s\<lparr>outside := w, calls := calls s @ [SuperTearDown]\<rparr>)
      | (Inr u, w) \<Rightarrow>
          (fst (rmtree env d w),
           s\<lparr>outside := snd (rmtree env d w), calls := calls s @ [SuperTearDown, Rmtree d]\<rparr>))"
  using assms
  by (auto simp add: tearDown_def and_then_def outside_call_eq get_temp_dir_def
      split: prod.splits sum.splits)

subsection \<open>The temporary directory\<close>

text \<open>
  C9: once \<open>get_temp_dir\<close> has returned a path (\<open>mkdtemp\<close> answers the path of the
  directory it made, which is never the empty string), the path is stored in
  \<open>self._tempdir\<close>; that first call has made exactly one call of \<open>mkdtemp\<close>, with the
  test root \<open>googletest.GetTempDir()\<close> as \<open>dir\<close>, unless the path was already stored;
  every later call returns the same path and changes nothing, however often it is
  repeated, so no second directory is made; and \<open>tearDown\<close>, after the base class's
  \<open>tearDown\<close>, calls \<open>tf.io.gfile.rmtree\<close> once, on that path, and makes no other call.
\<close>

theorem get_temp_dir_idempotent:
  assumes "get_temp_dir env s = (Inr d, s')" and "d \<noteq> []"
  shows "tempdir s' = Some d \<and>
     new_calls (get_temp_dir env) s =
       (if tempdir s = None \<or> tempdir s = Some [] then [Mkdtemp (googletest_GetTempDir env)]
        else []) \<and>
     get_temp_dir env s' = (Inr d, s') \<and>
     new_calls (get_temp_dir env) s' = [] \<and>
     repeatedly n (get_temp_dir env) s' = (Inr (replicate n d), s') \<and>
     (\<forall>e w. super_tearDown env (outside s') = (Inl e, w) \<longrightarrow>
        new_calls (tearDown env) s' = [SuperTearDown]) \<and>
     (\<forall>u w. super_tearDown env (outside s') = (Inr u, w) \<longrightarrow>
        new_calls (tearDown env) s' = [SuperTearDown, Rmtree d] \<and>
        fst (tearDown env s') = fst (rmtree env d w))"
proof -
  from get_temp_dir_Inr [OF assms(1)] have t: "tempdir s' = Some d" .
  from get_temp_dir_set [OF t assms(2)] have g: "get_temp_dir env s' = (Inr d, s')" .
  have c: "new_calls (get_temp_dir env) s' = []"
    by (simp add: g new_calls_def)
  from repeatedly_fixed [where m = "get_temp_dir env" and s = s' and x = d, OF g]
  have r: "repeatedly n (get_temp_dir env) s' = (Inr (replicate n d), s')" .
  have d1: "new_calls (tearDown env) s' = [SuperTearDown]"
    if "super_tearDown env (outside s') = (Inl e, w)" for e w
    using that by (simp add: tearDown_set [OF t assms(2)] new_calls_def)
  have d2: "new_calls (tearDown env) s' = [SuperTearDown, Rmtree d] \<and>
        fst (tearDown env s') = fst (rmtree env d w)"
    if "super_tearDown env (outside s') = (Inr u, w)" for u w
    using that by (simp add: tearDown_set [OF t assms(2)] new_calls_def)
  from t get_temp_dir_calls [of env s] g c r d1 d2 show ?thesis
    by blast
qed

lemmas keras_defs = get_temp_dir_def tearDown_def enable_eager_def num_gpus_call_def
  skip_unless_gpus_def run_synthetic_with_def extra_flags_of_class_def outside_call_def
  test_end_to_end_no_dist_strat_def test_end_to_end_graph_no_dist_strat_def
  test_end_to_end_1_gpu_def test_end_to_end_graph_1_gpu_def test_end_to_end_2_gpu_def
  test_end_to_end_xla_2_gpu_def test_end_to_end_2_gpu_fp16_def
  test_end_to_end_xla_2_gpu_fp16_def test_end_to_end_graph_2_gpu_def
  test_end_to_end_graph_xla_2_gpu_def new_calls_def and_then_def returns_def raise_def

lemmas demo_keras_defs = demo_keras_env_def demo_keras_test_def demo_temp_name_def
  os_path_join_def

lemma demo_get_temp_dir:
  "get_temp_dir (demo_keras_env 0) demo_keras_test =
     (Inr ''/tmp/test/tmp'',
      \<lparr>tempdir = Some ''/tmp/test/tmp'', outside = (1, [''/tmp/test/tmp'']),
       calls = [Mkdtemp ''/tmp/test'']\<rparr>)"
  by (simp add: keras_defs demo_keras_defs)

theorem get_temp_dir_idempotent_witness:
  "get_temp_dir (demo_keras_env 0) demo_keras_test =
     (Inr ''/tmp/test/tmp'',
      \<lparr>tempdir = Some ''/tmp/test/tmp'', outside = (1, [''/tmp/test/tmp'']),
       calls = [Mkdtemp ''/tmp/test'']\<rparr>) \<and>
   new_calls (get_temp_dir (demo_keras_env 0)) demo_keras_test = [Mkdtemp ''/tmp/test''] \<and>
   repeatedly 3 (get_temp_dir (demo_keras_env 0))
       \<lparr>tempdir = Some ''/tmp/test/tmp'', outside = (1, [''/tmp/test/tmp'']),
        calls = [Mkdtemp ''/tmp/test'']\<rparr> =
     (Inr [''/tmp/test/tmp'', ''/tmp/test/tmp'', ''/tmp/test/tmp''],
      \<lparr>tempdir = Some ''/tmp/test/tmp'', outside = (1, [''/tmp/test/tmp'']),
       calls = [Mkdtemp ''/tmp/test'']\<rparr>) \<and>
   new_calls (tearDown (demo_keras_env 0))
       \<lparr>tempdir = Some ''/tmp/test/tmp'', outside = (1, [''/tmp/test/tmp'']),
        calls = [Mkdtemp ''/tmp/test'']\<rparr> =
     [SuperTearDown, Rmtree ''/tmp/test/tmp'']"
proof -
  have ne: "''/tmp/test/tmp'' \<noteq> []"
    by simp
  have su: "super_tearDown (demo_keras_env 0)
      (outside \<lparr>tempdir = Some ''/tmp/test/tmp'', outside = (1, [''/tmp/test/tmp'']),
        calls = [Mkdtemp ''/tmp/test'']\<rparr>) = (Inr (), (1, [''/tmp/test/tmp'']))"
    by (simp add: demo_keras_env_def)
  have dm: "tempdir demo_keras_test = None"
    by (simp add: demo_keras_test_def)
  have root: "googletest_GetTempDir (demo_keras_env 0) = ''/tmp/test''"
    by (simp add: demo_keras_env_def)
  note th = get_temp_dir_idempotent [OF demo_get_temp_dir ne, of 3]
  from th su have td: "new_calls (tearDown (demo_keras_env 0))
       \<lparr>tempdir = Some ''/tmp/test/tmp'', outside = (1, [''/tmp/test/tmp'']),
        calls = [Mkdtemp ''/tmp/test'']\<rparr> =
     [SuperTearDown, Rmtree ''/tmp/test/tmp'']"
    by blast
  from th dm root
  have nc: "new_calls (get_temp_dir (demo_keras_env 0)) demo_keras_test = [Mkdtemp ''/tmp/test'']"
    by simp
  from th have rp: "repeatedly 3 (get_temp_dir (demo_keras_env 0))
       \<lparr>tempdir = Some ''/tmp/test/tmp'', outside = (1, [''/tmp/test/tmp'']),
        calls = [Mkdtemp ''/tmp/test'']\<rparr> =
     (Inr (replicate 3 ''/tmp/test/tmp''),
      \<lparr>tempdir = Some ''/tmp/test/tmp'', outside = (1, [''/tmp/test/tmp'']),
       calls = [Mkdtemp ''/tmp/test'']\<rparr>)"
    by blast
  have "replicate 3 ''/tmp/test/tmp'' = [''/tmp/test/tmp'', ''/tmp/test/tmp'', ''/tmp/test/tmp'']"
    by (simp add: numeral_3_eq_3)
  with rp demo_get_temp_dir td nc show ?thesis
    by simp
qed

end
